theory Spec2Isabelle
  imports Complex_Main "HOL-Library.Product_Lexorder"
begin

section \<open>Floating-point values\<close>

text \<open>
  The analyzer works on numpy \<open>float64\<close> arrays. A value is a NaN, an infinity or a finite
  number. Finite numbers are modelled as reals with exact arithmetic: rounding, overflow to
  infinity and the sign of zero are not modelled. The special values follow IEEE 754 as numpy
  implements it: every ordered comparison with NaN is false, \<open>inf - inf\<close>, \<open>0 * inf\<close>,
  \<open>inf / inf\<close> and \<open>0 / 0\<close> are NaN, and a non-zero number divided by zero is an infinity
  (numpy warns, it does not raise).
\<close>

datatype npfloat = NaN | NegInf | Finite real | PosInf

definition isnan :: "npfloat \<Rightarrow> bool" where
  "isnan x = (x = NaN)"

definition isfinite :: "npfloat \<Rightarrow> bool" where
  "isfinite x = (case x of Finite _ \<Rightarrow> True | _ \<Rightarrow> False)"

fun fl_lt :: "npfloat \<Rightarrow> npfloat \<Rightarrow> bool" where
  "fl_lt NaN y = False"
| "fl_lt x NaN = False"
| "fl_lt (Finite a) (Finite b) = (a < b)"
| "fl_lt NegInf NegInf = False"
| "fl_lt NegInf y = True"
| "fl_lt x NegInf = False"
| "fl_lt PosInf y = False"
| "fl_lt x PosInf = True"

fun fl_eq :: "npfloat \<Rightarrow> npfloat \<Rightarrow> bool" where
  "fl_eq NaN y = False"
| "fl_eq x NaN = False"
| "fl_eq x y = (x = y)"

definition fl_le :: "npfloat \<Rightarrow> npfloat \<Rightarrow> bool" where
  "fl_le x y = (fl_lt x y \<or> fl_eq x y)"

definition fl_gt :: "npfloat \<Rightarrow> npfloat \<Rightarrow> bool" where
  "fl_gt x y = fl_lt y x"

definition fl_ge :: "npfloat \<Rightarrow> npfloat \<Rightarrow> bool" where
  "fl_ge x y = fl_le y x"

definition fl_ne :: "npfloat \<Rightarrow> npfloat \<Rightarrow> bool" where
  "fl_ne x y = (\<not> fl_eq x y)"

fun fl_neg :: "npfloat \<Rightarrow> npfloat" where
  "fl_neg NaN = NaN"
| "fl_neg NegInf = PosInf"
| "fl_neg PosInf = NegInf"
| "fl_neg (Finite a) = Finite (- a)"

fun fl_abs :: "npfloat \<Rightarrow> npfloat" where
  "fl_abs NaN = NaN"
| "fl_abs NegInf = PosInf"
| "fl_abs PosInf = PosInf"
| "fl_abs (Finite a) = Finite \<bar>a\<bar>"

fun fl_add :: "npfloat \<Rightarrow> npfloat \<Rightarrow> npfloat" where
  "fl_add NaN y = NaN"
| "fl_add x NaN = NaN"
| "fl_add (Finite a) (Finite b) = Finite (a + b)"
| "fl_add PosInf NegInf = NaN"
| "fl_add NegInf PosInf = NaN"
| "fl_add PosInf y = PosInf"
| "fl_add NegInf y = NegInf"
| "fl_add x PosInf = PosInf"
| "fl_add x NegInf = NegInf"

definition fl_sub :: "npfloat \<Rightarrow> npfloat \<Rightarrow> npfloat" where
  "fl_sub x y = fl_add x (fl_neg y)"

text \<open>The sign of a value that is not NaN: \<open>-1\<close>, \<open>0\<close> or \<open>1\<close>.\<close>

fun fl_sgn :: "npfloat \<Rightarrow> int" where
  "fl_sgn NaN = 0"
| "fl_sgn NegInf = - 1"
| "fl_sgn PosInf = 1"
| "fl_sgn (Finite a) = (if a < 0 then - 1 else if a = 0 then 0 else 1)"

definition signed_inf :: "int \<Rightarrow> npfloat" where
  "signed_inf s = (if s < 0 then NegInf else if s = 0 then NaN else PosInf)"

fun fl_mul :: "npfloat \<Rightarrow> npfloat \<Rightarrow> npfloat" where
  "fl_mul NaN y = NaN"
| "fl_mul x NaN = NaN"
| "fl_mul (Finite a) (Finite b) = Finite (a * b)"
| "fl_mul x y = signed_inf (fl_sgn x * fl_sgn y)"

text \<open>
  Division of numpy scalars. With the sign of zero not modelled, a zero divisor counts as
  \<open>+0\<close>.
\<close>

fun fl_div :: "npfloat \<Rightarrow> npfloat \<Rightarrow> npfloat" where
  "fl_div NaN y = NaN"
| "fl_div x NaN = NaN"
| "fl_div (Finite a) (Finite b) =
     (if b = 0 then signed_inf (fl_sgn (Finite a)) else Finite (a / b))"
| "fl_div (Finite a) y = Finite 0"
| "fl_div x (Finite b) = signed_inf (fl_sgn x * (if b < 0 then - 1 else 1))"
| "fl_div x y = NaN"

fun fl_sqrt :: "npfloat \<Rightarrow> npfloat" where
  "fl_sqrt NaN = NaN"
| "fl_sqrt NegInf = NaN"
| "fl_sqrt PosInf = PosInf"
| "fl_sqrt (Finite a) = (if a < 0 then NaN else Finite (sqrt a))"

definition fl_of_nat :: "nat \<Rightarrow> npfloat" where
  "fl_of_nat n = Finite (real n)"

definition fl_of_int :: "int \<Rightarrow> npfloat" where
  "fl_of_int i = Finite (real_of_int i)"

section \<open>Errors and the analyzer\<close>

datatype error = ValueError string | KeyError string

record analyzer =
  data :: "npfloat list"
  n_years :: nat

text \<open>Decimal digits of a natural number, as an f-string formats an \<open>int\<close>.\<close>

definition digit_char :: "nat \<Rightarrow> char" where
  "digit_char d =
     (if d = 0 then CHR ''0'' else if d = 1 then CHR ''1'' else if d = 2 then CHR ''2''
      else if d = 3 then CHR ''3'' else if d = 4 then CHR ''4'' else if d = 5 then CHR ''5''
      else if d = 6 then CHR ''6'' else if d = 7 then CHR ''7'' else if d = 8 then CHR ''8''
      else CHR ''9'')"

fun str_nat :: "nat \<Rightarrow> string" where
  "str_nat n = (if n < 10 then [digit_char n] else str_nat (n div 10) @ [digit_char (n mod 10)])"

declare str_nat.simps [simp del]

definition low_data_warning :: "nat \<Rightarrow> string" where
  "low_data_warning n =
     ''Only '' @ str_nat n @ '' years of data available. Results may be less reliable.''"

text \<open>
  \<open>ClimatologicalAnalyzer.__init__\<close>: keeps the entries that are not NaN, raises
  \<open>ValueError\<close> when none is left, and warns (without failing) below ten entries. The
  result is the constructed analyzer together with the warnings emitted.
\<close>

definition ClimatologicalAnalyzer_init :: "npfloat list \<Rightarrow> error + analyzer \<times> string list" where
  "ClimatologicalAnalyzer_init historical_data =
     (let d = filter (\<lambda>x. \<not> isnan x) historical_data;
          n = length d
      in if n = 0 then Inl (ValueError ''No valid data points provided'')
         else Inr (\<lparr>data = d, n_years = n\<rparr>,
                   if n < 10 then [low_data_warning n] else []))"

text \<open>\<open>np.sum\<close> of a boolean array counts its true entries.\<close>

definition np_sum_bool :: "bool list \<Rightarrow> nat" where
  "np_sum_bool bs = sum_list (map (\<lambda>b. if b then 1 else 0) bs)"

definition condition_error :: error where
  "condition_error = ValueError (''Condition must be 'exceeds' or 'below'' @ [CHR 0x27])"

definition calculate_probability :: "analyzer \<Rightarrow> npfloat \<Rightarrow> string \<Rightarrow> error + npfloat" where
  "calculate_probability self threshold condition =
     (if condition = ''exceeds''
      then Inr (fl_div (fl_of_nat (np_sum_bool (map (\<lambda>x. fl_gt x threshold) (data self))))
                       (fl_of_nat (n_years self)))
      else if condition = ''below''
      then Inr (fl_div (fl_of_nat (np_sum_bool (map (\<lambda>x. fl_lt x threshold) (data self))))
                       (fl_of_nat (n_years self)))
      else Inl condition_error)"

definition get_comfortable_probability :: "analyzer \<Rightarrow> npfloat \<Rightarrow> npfloat \<Rightarrow> npfloat" where
  "get_comfortable_probability self min_comfortable max_comfortable =
     fl_div (fl_of_nat (np_sum_bool
               (map (\<lambda>x. fl_ge x min_comfortable \<and> fl_le x max_comfortable) (data self))))
            (fl_of_nat (n_years self))"

definition calculate_return_period :: "analyzer \<Rightarrow> npfloat \<Rightarrow> string \<Rightarrow> error + npfloat" where
  "calculate_return_period self threshold condition =
     (case calculate_probability self threshold condition of
        Inl e \<Rightarrow> Inl e
      | Inr probability \<Rightarrow>
          if fl_eq probability (Finite 0) then Inr PosInf
          else Inr (fl_div (Finite 1) probability))"

section \<open>Binary64 rounding\<close>

text \<open>
  The finite arithmetic above is exact. Whether a product of two computed numbers equals 1
  depends on rounding, so the two probability methods are given a second time with their
  divisions rounded as the interpreter rounds them: to the nearest binary64 number, ties to
  the even significand. The exponent range is not bounded here: a quotient of a count by a
  sample size and its reciprocal are far from overflow and underflow.
\<close>

definition round_half_even :: "real \<Rightarrow> int" where
  "round_half_even m =
     (let f = \<lfloor>m\<rfloor>; d = m - of_int f
      in if d < 1 / 2 then f else if 1 / 2 < d then f + 1 else if even f then f else f + 1)"

definition round_binary64 :: "real \<Rightarrow> real" where
  "round_binary64 x =
     (if x = 0 then 0
      else let e = \<lfloor>log 2 \<bar>x\<bar>\<rfloor> - 52
           in of_int (round_half_even (x / 2 powr of_int e)) * 2 powr of_int e)"

definition fl_round :: "npfloat \<Rightarrow> npfloat" where
  "fl_round x = (case x of Finite a \<Rightarrow> Finite (round_binary64 a) | _ \<Rightarrow> x)"

definition fl_div64 :: "npfloat \<Rightarrow> npfloat \<Rightarrow> npfloat" where
  "fl_div64 x y = fl_round (fl_div x y)"

definition fl_mul64 :: "npfloat \<Rightarrow> npfloat \<Rightarrow> npfloat" where
  "fl_mul64 x y = fl_round (fl_mul x y)"

text \<open>
  \<open>calculate_probability\<close> and \<open>calculate_return_period\<close> with binary64 division.
\<close>

definition calculate_probability_binary64 ::
  "analyzer \<Rightarrow> npfloat \<Rightarrow> string \<Rightarrow> error + npfloat" where
  "calculate_probability_binary64 self threshold condition =
     (if condition = ''exceeds''
      then Inr (fl_div64 (fl_of_nat (np_sum_bool (map (\<lambda>x. fl_gt x threshold) (data self))))
                         (fl_of_nat (n_years self)))
      else if condition = ''below''
      then Inr (fl_div64 (fl_of_nat (np_sum_bool (map (\<lambda>x. fl_lt x threshold) (data self))))
                         (fl_of_nat (n_years self)))
      else Inl condition_error)"

definition calculate_return_period_binary64 ::
  "analyzer \<Rightarrow> npfloat \<Rightarrow> string \<Rightarrow> error + npfloat" where
  "calculate_return_period_binary64 self threshold condition =
     (case calculate_probability_binary64 self threshold condition of
        Inl e \<Rightarrow> Inl e
      | Inr probability \<Rightarrow>
          if fl_eq probability (Finite 0) then Inr PosInf
          else Inr (fl_div64 (Finite 1) probability))"

section \<open>Library functions\<close>

text \<open>
  The analyzer calls numpy and scipy. Their reductions are defined here from their
  documented behaviour and the specification's description; scipy's regression, its
  maximum-likelihood fit, its Kolmogorov-Smirnov test and the quantile functions of the
  Student and normal distributions are parameters of the model (\<open>scipy_stats\<close> below).
\<close>

text \<open>
  Modelled from the spec: \<open>np.sort\<close>, which orders the values ascending and puts NaN last.
\<close>

fun fl_key :: "npfloat \<Rightarrow> nat \<times> real" where
  "fl_key NegInf = (0, 0)"
| "fl_key (Finite a) = (1, a)"
| "fl_key PosInf = (2, 0)"
| "fl_key NaN = (3, 0)"

definition np_sort :: "npfloat list \<Rightarrow> npfloat list" where
  "np_sort xs = sort_key fl_key xs"

text \<open>Modelled from the spec: \<open>np.sum\<close> of a float array.\<close>

definition np_sum :: "npfloat list \<Rightarrow> npfloat" where
  "np_sum xs = foldl fl_add (Finite 0) xs"

text \<open>
  Modelled from the spec: \<open>np.mean\<close>, the arithmetic mean (NaN for an empty array, where
  numpy divides zero by zero).
\<close>

definition np_mean :: "npfloat list \<Rightarrow> npfloat" where
  "np_mean xs = fl_div (np_sum xs) (fl_of_nat (length xs))"

text \<open>
  Modelled from the spec: \<open>np.std\<close> with \<open>ddof\<close> delta degrees of freedom: the square root
  of the sum of squared deviations from the mean divided by \<open>max (n - ddof) 0\<close>. The
  population standard deviation has \<open>ddof = 0\<close>, the Bessel-corrected one \<open>ddof = 1\<close>.
\<close>

definition np_var :: "nat \<Rightarrow> npfloat list \<Rightarrow> npfloat" where
  "np_var ddof xs =
     (let m = np_mean xs;
          sq = map (\<lambda>x. fl_mul (fl_sub x m) (fl_sub x m)) xs
      in fl_div (np_sum sq) (fl_of_nat (length xs - ddof)))"

definition np_std :: "nat \<Rightarrow> npfloat list \<Rightarrow> npfloat" where
  "np_std ddof xs = fl_sqrt (np_var ddof xs)"

text \<open>
  Modelled from the spec: \<open>scipy.stats.sem\<close>, the standard error of the mean: the
  Bessel-corrected sample standard deviation divided by the square root of \<open>n\<close>.
\<close>

definition stats_sem :: "npfloat list \<Rightarrow> npfloat" where
  "stats_sem xs = fl_div (np_std 1 xs) (fl_sqrt (fl_of_nat (length xs)))"

text \<open>
  Modelled from the spec: \<open>np.min\<close> and \<open>np.max\<close>, which propagate NaN and raise
  \<open>ValueError\<close> on an empty array.
\<close>

definition fl_min :: "npfloat \<Rightarrow> npfloat \<Rightarrow> npfloat" where
  "fl_min a b = (if isnan a \<or> isnan b then NaN else if fl_lt b a then b else a)"

definition fl_max :: "npfloat \<Rightarrow> npfloat \<Rightarrow> npfloat" where
  "fl_max a b = (if isnan a \<or> isnan b then NaN else if fl_lt a b then b else a)"

fun np_min :: "npfloat list \<Rightarrow> error + npfloat" where
  "np_min [] = Inl (ValueError
     ''zero-size array to reduction operation minimum which has no identity'')"
| "np_min (x # xs) = Inr (foldl fl_min x xs)"

fun np_max :: "npfloat list \<Rightarrow> error + npfloat" where
  "np_max [] = Inl (ValueError
     ''zero-size array to reduction operation maximum which has no identity'')"
| "np_max (x # xs) = Inr (foldl fl_max x xs)"

text \<open>
  Modelled from the spec: \<open>np.median\<close>, the middle order statistic, or the mean of the two
  middle ones for an even count (NaN for an empty array).
\<close>

definition np_median :: "npfloat list \<Rightarrow> npfloat" where
  "np_median xs =
     (let arr = np_sort xs; n = length arr
      in if n = 0 then NaN
         else if isnan (last arr) then NaN
         else if odd n then arr ! (n div 2)
         else np_mean [arr ! (n div 2 - 1), arr ! (n div 2)])"

text \<open>
  Modelled from the spec: \<open>np.percentile\<close> with its default method, linear interpolation
  between order statistics. For rank \<open>q\<close> in \<open>[0, 100]\<close> the fractional position in the
  sorted array of \<open>n\<close> values is \<open>(n - 1) * q / 100\<close>; the result interpolates between the
  order statistics below and above that position by its fractional part. A NaN in the
  array makes the result NaN, as does an empty array. numpy interpolates from the lower
  value when the fractional part is below one half and from the upper value otherwise; on
  finite values the two agree, on infinite ones either can be NaN.
\<close>

definition lerp :: "npfloat \<Rightarrow> npfloat \<Rightarrow> npfloat \<Rightarrow> npfloat" where
  "lerp a b t =
     (let diff_b_a = fl_sub b a
      in if fl_ge t (Finite 0.5) then fl_sub b (fl_mul diff_b_a (fl_sub (Finite 1) t))
         else fl_add a (fl_mul diff_b_a t))"

definition np_percentile :: "npfloat list \<Rightarrow> real \<Rightarrow> npfloat" where
  "np_percentile a q =
     (let arr = np_sort a; n = length arr
      in if n = 0 then NaN
         else if isnan (last arr) then NaN
         else
           let virtual_index = real (n - 1) * (q / 100);
               previous_index = min (nat \<lfloor>virtual_index\<rfloor>) (n - 1);
               next_index = min (previous_index + 1) (n - 1);
               gamma = virtual_index - real previous_index
           in lerp (arr ! previous_index) (arr ! next_index) (Finite gamma))"

text \<open>
  Modelled from the spec: \<open>scipy.stats.gumbel_r.ppf\<close>, the Gumbel quantile function
  \<open>x = mu - beta * ln (- ln q)\<close> for location \<open>mu\<close>, scale \<open>beta > 0\<close> and probability
  \<open>0 < q < 1\<close>. scipy returns the ends of the support at \<open>q = 0\<close> and \<open>q = 1\<close> and NaN for
  invalid arguments.
\<close>

fun gumbel_r_ppf :: "npfloat \<Rightarrow> npfloat \<Rightarrow> npfloat \<Rightarrow> npfloat" where
  "gumbel_r_ppf (Finite q) (Finite mu) (Finite beta) =
     (if beta \<le> 0 \<or> q < 0 \<or> 1 < q then NaN
      else if q = 0 then NegInf
      else if q = 1 then PosInf
      else Finite (mu - beta * ln (- ln q)))"
| "gumbel_r_ppf q mu beta = NaN"

text \<open>
  The scipy functions that stay abstract. A call that raises is \<open>Inl\<close> of the exception's
  message (\<open>str(e)\<close>). \<open>linregress x y\<close> returns slope, intercept, correlation coefficient,
  two-sided p-value and standard error; \<open>gumbel_r_fit\<close> returns location and scale;
  \<open>kstest\<close> takes the sample and the fitted parameters of the Gumbel distribution whose
  CDF it tests against, and returns statistic and p-value; \<open>t_ppf q df\<close> and \<open>norm_ppf q\<close>
  are the quantile functions of the Student and the standard normal distribution.
\<close>

record scipy_stats =
  linregress :: "npfloat list \<Rightarrow> npfloat list \<Rightarrow>
                 string + (npfloat \<times> npfloat \<times> npfloat \<times> npfloat \<times> npfloat)"
  gumbel_r_fit :: "npfloat list \<Rightarrow> string + (npfloat \<times> npfloat)"
  kstest :: "npfloat list \<Rightarrow> npfloat \<times> npfloat \<Rightarrow> string + (npfloat \<times> npfloat)"
  t_ppf :: "npfloat \<Rightarrow> npfloat \<Rightarrow> npfloat"
  norm_ppf :: "npfloat \<Rightarrow> npfloat"

definition np_arange :: "nat \<Rightarrow> npfloat list" where
  "np_arange n = map fl_of_nat [0..<n]"

section \<open>Percentiles, trend, extreme values\<close>

record percentile_table =
  p10 :: npfloat
  p25 :: npfloat
  p50 :: npfloat
  p75 :: npfloat
  p90 :: npfloat
  p95 :: npfloat
  p99 :: npfloat

definition get_percentiles :: "analyzer \<Rightarrow> percentile_table" where
  "get_percentiles self =
     \<lparr>p10 = np_percentile (data self) 10,
      p25 = np_percentile (data self) 25,
      p50 = np_percentile (data self) 50,
      p75 = np_percentile (data self) 75,
      p90 = np_percentile (data self) 90,
      p95 = np_percentile (data self) 95,
      p99 = np_percentile (data self) 99\<rparr>"

text \<open>
  The dictionary \<open>detect_trend\<close> returns. Its two shapes have different keys; a key that is
  absent is \<open>None\<close>.
\<close>

record trend_result =
  slope :: npfloat
  intercept :: "npfloat option"
  r_value :: "npfloat option"
  p_value :: npfloat
  std_err :: "npfloat option"
  significant :: bool
  direction :: string
  trend_strength :: "npfloat option"
  error :: "string option"

definition detect_trend :: "scipy_stats \<Rightarrow> analyzer \<Rightarrow> trend_result" where
  "detect_trend lib self =
     (let years = np_arange (n_years self)
      in case linregress lib years (data self) of
           Inr (sl, ic, rv, pv, se) \<Rightarrow>
             \<lparr>slope = sl, intercept = Some ic, r_value = Some rv, p_value = pv,
              std_err = Some se,
              significant = fl_lt pv (Finite 0.05),
              direction = (if fl_gt sl (Finite 0) then ''increasing'' else ''decreasing''),
              trend_strength = Some (fl_abs rv),
              error = None\<rparr>
         | Inl e \<Rightarrow>
             \<lparr>slope = Finite 0, intercept = None, r_value = None, p_value = Finite 1,
              std_err = None,
              significant = False,
              direction = ''no trend'',
              trend_strength = None,
              error = Some e\<rparr>)"

record goodness_of_fit =
  ks_statistic :: "npfloat option"
  ks_p_value :: "npfloat option"
  fit_quality :: string

definition gumbel_goodness_of_fit ::
  "scipy_stats \<Rightarrow> analyzer \<Rightarrow> npfloat \<times> npfloat \<Rightarrow> goodness_of_fit" where
  "gumbel_goodness_of_fit lib self params =
     (case kstest lib (data self) params of
        Inr (ks_stat, ks_p) \<Rightarrow>
          \<lparr>ks_statistic = Some ks_stat, ks_p_value = Some ks_p,
           fit_quality = (if fl_gt ks_p (Finite 0.05) then ''good'' else ''poor'')\<rparr>
      | Inl e \<Rightarrow>
          \<lparr>ks_statistic = None, ks_p_value = None, fit_quality = ''unknown''\<rparr>)"

datatype extreme_values =
  ExtremeValues "npfloat \<times> npfloat" "string \<rightharpoonup> npfloat" goodness_of_fit
| ExtremeError string

definition return_periods :: "nat list" where
  "return_periods = [2, 5, 10, 20, 50, 100]"

definition get_extreme_value_analysis :: "scipy_stats \<Rightarrow> analyzer \<Rightarrow> extreme_values" where
  "get_extreme_value_analysis lib self =
     (case gumbel_r_fit lib (data self) of
        Inl e \<Rightarrow> ExtremeError e
      | Inr params \<Rightarrow>
          let return_values =
                foldl (\<lambda>rvs period.
                         let probability = fl_sub (Finite 1) (fl_div (Finite 1) (fl_of_nat period));
                             return_value = gumbel_r_ppf probability (fst params) (snd params)
                         in rvs(str_nat period @ ''_year'' \<mapsto> return_value))
                      Map.empty return_periods
          in ExtremeValues params return_values (gumbel_goodness_of_fit lib self params))"

section \<open>Risk assessment\<close>

text \<open>
  \<open>_categorize_risk\<close> reads \<open>assessment['basic_stats']['std_dev']\<close> and
  \<open>assessment['basic_stats']['mean']\<close> inside a \<open>try\<close> whose bare \<open>except\<close> returns
  \<open>'Unknown'\<close>. Its argument is the assessment dictionary restricted to the entries that
  are dictionaries of numbers; a missing key is the failure it recovers from.
\<close>

definition categorize_risk :: "(string \<rightharpoonup> (string \<rightharpoonup> npfloat)) \<Rightarrow> string" where
  "categorize_risk assessment =
     (case assessment ''basic_stats'' of
        None \<Rightarrow> ''Unknown''
      | Some stats \<Rightarrow>
          (case stats ''std_dev'' of
             None \<Rightarrow> ''Unknown''
           | Some std_dev \<Rightarrow>
               (case stats ''mean'' of
                  None \<Rightarrow> ''Unknown''
                | Some mean \<Rightarrow>
                    let cv = (if fl_ne mean (Finite 0) then fl_div std_dev (fl_abs mean)
                              else PosInf)
                    in if fl_lt cv (Finite 0.1) then ''Low''
                       else if fl_lt cv (Finite 0.3) then ''Moderate''
                       else if fl_lt cv (Finite 0.5) then ''High''
                       else ''Very High'')))"

text \<open>
  The thresholds dictionary: each of \<open>'hot'\<close>, \<open>'cold'\<close> and \<open>'comfortable'\<close> may be absent;
  \<open>'comfortable'\<close> holds the pair of its \<open>'min'\<close> and \<open>'max'\<close>.
\<close>

record threshold_set =
  hot :: "npfloat option"
  cold :: "npfloat option"
  comfortable :: "(npfloat \<times> npfloat) option"

text \<open>The assessment dictionary; a key that is absent is \<open>None\<close>.\<close>

record assessment =
  basic_stats :: "string \<rightharpoonup> npfloat"
  percentiles :: percentile_table
  trend_analysis :: trend_result
  very_hot_probability :: "npfloat option"
  hot_return_period :: "npfloat option"
  very_cold_probability :: "npfloat option"
  cold_return_period :: "npfloat option"
  comfortable_probability :: "npfloat option"
  extreme_values :: extreme_values
  risk_category :: string

text \<open>An exception raised by a step propagates past the steps after it.\<close>

definition bind_err :: "error + 'a \<Rightarrow> ('a \<Rightarrow> error + 'b) \<Rightarrow> error + 'b" where
  "bind_err m f = (case m of Inl e \<Rightarrow> Inl e | Inr x \<Rightarrow> f x)"

definition generate_risk_assessment ::
  "scipy_stats \<Rightarrow> analyzer \<Rightarrow> threshold_set \<Rightarrow> error + assessment" where
  "generate_risk_assessment lib self thresholds =
     bind_err (np_min (data self)) (\<lambda>mn.
     bind_err (np_max (data self)) (\<lambda>mx.
       let stats = [''mean'' \<mapsto> np_mean (data self),
                    ''median'' \<mapsto> np_median (data self),
                    ''std_dev'' \<mapsto> np_std 0 (data self),
                    ''min_recorded'' \<mapsto> mn,
                    ''max_recorded'' \<mapsto> mx,
                    ''data_years'' \<mapsto> fl_of_nat (n_years self)];
           pcs = get_percentiles self;
           trend = detect_trend lib self
       in
     bind_err (case hot thresholds of
                 None \<Rightarrow> Inr (None, None)
               | Some h \<Rightarrow>
                   bind_err (calculate_probability self h ''exceeds'') (\<lambda>p.
                   bind_err (calculate_return_period self h ''exceeds'') (\<lambda>rp.
                     Inr (Some p, Some rp)))) (\<lambda>(hot_p, hot_rp).
     bind_err (case cold thresholds of
                 None \<Rightarrow> Inr (None, None)
               | Some c \<Rightarrow>
                   bind_err (calculate_probability self c ''below'') (\<lambda>p.
                   bind_err (calculate_return_period self c ''below'') (\<lambda>rp.
                     Inr (Some p, Some rp)))) (\<lambda>(cold_p, cold_rp).
       let comfort_p = (case comfortable thresholds of
                          None \<Rightarrow> None
                        | Some (lo, hi) \<Rightarrow> Some (get_comfortable_probability self lo hi));
           extreme = get_extreme_value_analysis lib self;
           category = categorize_risk [''basic_stats'' \<mapsto> stats]
       in Inr \<lparr>basic_stats = stats,
               percentiles = pcs,
               trend_analysis = trend,
               very_hot_probability = hot_p,
               hot_return_period = hot_rp,
               very_cold_probability = cold_p,
               cold_return_period = cold_rp,
               comfortable_probability = comfort_p,
               extreme_values = extreme,
               risk_category = category\<rparr>))))"

section \<open>Confidence interval of the mean\<close>

definition confidence_interval :: "scipy_stats \<Rightarrow> analyzer \<Rightarrow> npfloat \<Rightarrow> npfloat \<times> npfloat" where
  "confidence_interval lib self confidence_level =
     (let alpha = fl_sub (Finite 1) confidence_level;
          mean = np_mean (data self);
          sem = stats_sem (data self);
          margin_error =
            (if n_years self < 30
             then fl_mul (t_ppf lib (fl_sub (Finite 1) (fl_div alpha (Finite 2)))
                                    (fl_of_int (int (n_years self) - 1))) sem
             else fl_mul (norm_ppf lib (fl_sub (Finite 1) (fl_div alpha (Finite 2)))) sem)
      in (fl_sub mean margin_error, fl_add mean margin_error))"

text \<open>
  What the interval needs of the two quantile functions: at a probability strictly between
  one half and one they return a finite positive number (for the Student distribution, with
  at least one degree of freedom). Both distributions are symmetric about zero, so their
  quantile functions have this property.
\<close>

definition symmetric_quantiles :: "scipy_stats \<Rightarrow> bool" where
  "symmetric_quantiles lib \<longleftrightarrow>
     (\<forall>q. 1 / 2 < q \<and> q < 1 \<longrightarrow>
        (\<exists>z. 0 < z \<and> norm_ppf lib (Finite q) = Finite z)
      \<and> (\<forall>df. 1 \<le> df \<longrightarrow> (\<exists>z. 0 < z \<and> t_ppf lib (Finite q) (Finite df) = Finite z)))"

section \<open>The specification's formulas\<close>

text \<open>
  The linear-interpolation percentile of a list of real numbers, in the specification's
  words: for rank \<open>q\<close>, interpolate between the two nearest order statistics by the
  fractional rank position \<open>(n - 1) * q / 100\<close>. It is compared below with the entries of
  the percentile table.
\<close>

definition linear_percentile :: "real list \<Rightarrow> real \<Rightarrow> real" where
  "linear_percentile xs q =
     (let s = sort xs; n = length s;
          v = real (n - 1) * (q / 100);
          lo = nat \<lfloor>v\<rfloor>;
          hi = min (lo + 1) (n - 1)
      in s ! lo + (s ! hi - s ! lo) * (v - real lo))"

text \<open>
  The return value the specification prescribes for return period \<open>T\<close>: the Gumbel quantile
  at probability \<open>1 - 1/T\<close>. It is compared below with what the analyzer stores.
\<close>

definition spec_return_value :: "real \<Rightarrow> real \<Rightarrow> nat \<Rightarrow> real" where
  "spec_return_value mu beta T = mu - beta * ln (- ln (1 - 1 / real T))"

section \<open>A fixed library for concrete evaluations\<close>

text \<open>
  Concrete evaluations need concrete library functions. \<open>fixed_stats\<close> returns fixed
  numbers from every call. Its regression result is the one scipy computes for a constant
  sample of 20s, which has zero variance: slope 0, intercept 20, correlation 0, p-value 1
  and standard error 0; scipy does not raise on such a sample. Both quantile functions
  return the fixed critical value 2.
\<close>

definition fixed_stats :: scipy_stats where
  "fixed_stats =
     \<lparr>linregress = (\<lambda>x y. Inr (Finite 0, Finite 20, Finite 0, Finite 1, Finite 0)),
      gumbel_r_fit = (\<lambda>d. Inr (Finite 20, Finite 3)),
      kstest = (\<lambda>d params. Inr (Finite (1 / 10), Finite (1 / 2))),
      t_ppf = (\<lambda>q df. Finite 2),
      norm_ppf = (\<lambda>q. Finite 2)\<rparr>"

section \<open>Basic facts\<close>

lemma np_sum_bool_filter: "np_sum_bool (map P xs) = length (filter P xs)"
  by (induction xs) (simp_all add: np_sum_bool_def)

lemma init_Inr:
  assumes "ClimatologicalAnalyzer_init raw = Inr (self, ws)"
  shows "data self = filter (\<lambda>x. \<not> isnan x) raw" and "n_years self = length (data self)"
    and "0 < n_years self"
  using assms by (auto simp: ClimatologicalAnalyzer_init_def Let_def split: if_splits)

lemma fl_div_nat: "0 < n \<Longrightarrow> fl_div (fl_of_nat k) (fl_of_nat n) = Finite (real k / real n)"
  by (simp add: fl_of_nat_def)

lemma fl_eq_not_lt: "fl_eq x t \<Longrightarrow> \<not> fl_lt x t \<and> \<not> fl_lt t x"
  by (cases x; cases t) auto

lemma prob_cases:
  assumes "ClimatologicalAnalyzer_init raw = Inr (self, ws)"
    and "calculate_probability self t d = Inr p"
  shows "\<exists>k. p = Finite (real k / real (n_years self)) \<and> 0 < n_years self"
  using assms(2) init_Inr(3)[OF assms(1)]
  by (auto simp: calculate_probability_def fl_div_nat split: if_splits)

section \<open>Probability and return period\<close>

text \<open>
  Claim C1. For an analyzer constructed from any raw array, the probability of exceeding a
  threshold is the number of observations strictly greater than it divided by the sample
  size, the probability of falling below is the number strictly less divided by the sample
  size, and the comfortable probability is the number of observations in the closed interval
  from the minimum to the maximum divided by the sample size. An observation equal to the
  threshold is counted in neither direction.
\<close>

theorem C1_probability_counts:
  assumes "ClimatologicalAnalyzer_init raw = Inr (self, ws)"
  shows "calculate_probability self t ''exceeds'' =
           Inr (Finite (real (length (filter (\<lambda>x. fl_gt x t) (data self)))
                        / real (length (data self))))
       \<and> calculate_probability self t ''below'' =
           Inr (Finite (real (length (filter (\<lambda>x. fl_lt x t) (data self)))
                        / real (length (data self))))
       \<and> get_comfortable_probability self lo hi =
           Finite (real (length (filter (\<lambda>x. fl_le lo x \<and> fl_le x hi) (data self)))
                   / real (length (data self)))
       \<and> filter (\<lambda>x. fl_eq x t \<and> (fl_gt x t \<or> fl_lt x t)) (data self) = []"
proof -
  have n: "n_years self = length (data self)" "0 < length (data self)"
    using init_Inr[OF assms] by simp_all
  have tie: "filter (\<lambda>x. fl_eq x t \<and> (fl_gt x t \<or> fl_lt x t)) (data self) = []"
    using fl_eq_not_lt by (auto simp: filter_empty_conv fl_gt_def)
  show ?thesis
    using n tie
    by (simp add: calculate_probability_def get_comfortable_probability_def
        np_sum_bool_filter fl_div_nat fl_ge_def)
qed

theorem C1_witness:
  "ClimatologicalAnalyzer_init [Finite 10, Finite 20, NaN, Finite 30, Finite 40, Finite 50] =
     Inr (\<lparr>data = [Finite 10, Finite 20, Finite 30, Finite 40, Finite 50], n_years = 5\<rparr>,
          [low_data_warning 5])
   \<and> calculate_probability
        \<lparr>data = [Finite 10, Finite 20, Finite 30, Finite 40, Finite 50], n_years = 5\<rparr>
        (Finite 30) ''exceeds'' = Inr (Finite (2 / 5))
   \<and> calculate_probability
        \<lparr>data = [Finite 10, Finite 20, Finite 30, Finite 40, Finite 50], n_years = 5\<rparr>
        (Finite 30) ''below'' = Inr (Finite (2 / 5))
   \<and> get_comfortable_probability
        \<lparr>data = [Finite 10, Finite 20, Finite 30, Finite 40, Finite 50], n_years = 5\<rparr>
        (Finite 20) (Finite 40) = Finite (3 / 5)"
proof -
  have h: "ClimatologicalAnalyzer_init
             [Finite 10, Finite 20, NaN, Finite 30, Finite 40, Finite 50] =
           Inr (\<lparr>data = [Finite 10, Finite 20, Finite 30, Finite 40, Finite 50], n_years = 5\<rparr>,
                [low_data_warning 5])"
    by code_simp
  show ?thesis
    using h C1_probability_counts[OF h, of "Finite 30" "Finite 20" "Finite 40"]
    by (simp add: fl_gt_def fl_le_def)
qed

text \<open>
  In exact arithmetic the return period is plus infinity at probability zero and otherwise
  the reciprocal of the probability, and their product is one.
\<close>

lemma return_period_reciprocal_exact:
  assumes "ClimatologicalAnalyzer_init raw = Inr (self, ws)"
    and "calculate_probability self t d = Inr p"
  shows "\<exists>rp. calculate_return_period self t d = Inr rp
           \<and> (if fl_eq p (Finite 0) then rp = PosInf
              else fl_mul rp p = Finite 1 \<and> rp = fl_div (Finite 1) p \<and> isfinite rp)"
proof -
  obtain k where p: "p = Finite (real k / real (n_years self))" and n: "0 < n_years self"
    using prob_cases[OF assms] by blast
  show ?thesis
    using assms(2) n by (simp add: calculate_return_period_def p isfinite_def)
qed

lemma round_binary64_eval:
  assumes "2 powr of_int k \<le> \<bar>x\<bar>" and "\<bar>x\<bar> < 2 powr of_int (k + 1)"
  shows "round_binary64 x =
           of_int (round_half_even (x / 2 powr of_int (k - 52))) * 2 powr of_int (k - 52)"
proof -
  have pos: "0 < \<bar>x\<bar>"
    using assms(1) by (smt (verit) powr_gt_zero)
  then have nz: "x \<noteq> 0" by auto
  have "\<lfloor>log 2 \<bar>x\<bar>\<rfloor> = k"
    using assms pos by (simp add: floor_log_eq_powr_iff)
  then show ?thesis
    using nz by (simp add: round_binary64_def Let_def)
qed

lemma round_7_9: "round_binary64 (7 / 9) = 7005599420354105 / 2 ^ 53"
  using round_binary64_eval[of "- 1" "7 / 9"]
  by (simp add: round_half_even_def Let_def powr_minus_divide)

lemma round_reciprocal:
  "round_binary64 (1 / (7005599420354105 / 2 ^ 53)) = 5790342378047780 / 2 ^ 52"
  using round_binary64_eval[of 0 "1 / (7005599420354105 / 2 ^ 53)"]
  by (simp add: round_half_even_def Let_def powr_minus_divide)

lemma round_product:
  "round_binary64 (5790342378047780 / 2 ^ 52 * (7005599420354105 / 2 ^ 53)) =
     9007199254740991 / 2 ^ 53"
  using round_binary64_eval[of "- 1" "5790342378047780 / 2 ^ 52 * (7005599420354105 / 2 ^ 53)"]
  by (simp add: round_half_even_def Let_def powr_minus_divide)

text \<open>
  Nine observations of which seven exceed the threshold: the probability is the binary64
  number nearest to 7/9, the return period the binary64 number nearest to its reciprocal,
  and their binary64 product is \<open>1 - 2\<^sup>-\<^sup>5\<^sup>3\<close>, the number below 1, not 1.
\<close>

theorem C2_counterexample:
  "ClimatologicalAnalyzer_init
     [Finite 10, Finite 20, Finite 30, Finite 40, Finite 50, Finite 60, Finite 70, Finite 80,
      Finite 90] =
     Inr (\<lparr>data = [Finite 10, Finite 20, Finite 30, Finite 40, Finite 50, Finite 60, Finite 70,
                  Finite 80, Finite 90], n_years = 9\<rparr>, [low_data_warning 9])
   \<and> calculate_probability_binary64
       \<lparr>data = [Finite 10, Finite 20, Finite 30, Finite 40, Finite 50, Finite 60, Finite 70,
                Finite 80, Finite 90], n_years = 9\<rparr> (Finite 25) ''exceeds'' =
       Inr (Finite (7005599420354105 / 2 ^ 53))
   \<and> calculate_return_period_binary64
       \<lparr>data = [Finite 10, Finite 20, Finite 30, Finite 40, Finite 50, Finite 60, Finite 70,
                Finite 80, Finite 90], n_years = 9\<rparr> (Finite 25) ''exceeds'' =
       Inr (Finite (5790342378047780 / 2 ^ 52))
   \<and> fl_mul64 (Finite (5790342378047780 / 2 ^ 52)) (Finite (7005599420354105 / 2 ^ 53)) =
       Finite (1 - 1 / 2 ^ 53)
   \<and> Finite (1 - 1 / 2 ^ 53) \<noteq> Finite 1"
proof -
  let ?a = "\<lparr>data = [Finite 10, Finite 20, Finite 30, Finite 40, Finite 50, Finite 60, Finite 70,
                  Finite 80, Finite 90], n_years = 9\<rparr>"
  have i: "ClimatologicalAnalyzer_init
     [Finite 10, Finite 20, Finite 30, Finite 40, Finite 50, Finite 60, Finite 70, Finite 80,
      Finite 90] = Inr (?a, [low_data_warning 9])"
    by code_simp
  have p: "calculate_probability_binary64 ?a (Finite 25) ''exceeds'' =
             Inr (Finite (7005599420354105 / 2 ^ 53))"
    by (simp add: calculate_probability_binary64_def np_sum_bool_def fl_gt_def fl_of_nat_def
        fl_div64_def fl_round_def round_7_9)
  have r: "calculate_return_period_binary64 ?a (Finite 25) ''exceeds'' =
             Inr (Finite (5790342378047780 / 2 ^ 52))"
    unfolding calculate_return_period_binary64_def p
    using round_reciprocal by (simp add: fl_div64_def fl_round_def)
  have m: "fl_mul64 (Finite (5790342378047780 / 2 ^ 52)) (Finite (7005599420354105 / 2 ^ 53)) =
             Finite (1 - 1 / 2 ^ 53)"
    using round_product by (simp add: fl_mul64_def fl_round_def)
  have n: "Finite (1 - 1 / 2 ^ 53) \<noteq> Finite 1" by simp
  show ?thesis
    using i p r m n by (intro conjI)
qed

lemma round_half_even_error: "\<bar>of_int (round_half_even m) - m\<bar> \<le> 1 / 2"
proof -
  define d where "d = m - of_int \<lfloor>m\<rfloor>"
  have d: "0 \<le> d" "d < 1" unfolding d_def by linarith+
  have lo: "\<bar>of_int \<lfloor>m\<rfloor> - m\<bar> = d"
    using d by (simp add: d_def)
  have hi: "\<bar>of_int (\<lfloor>m\<rfloor> + 1) - m\<bar> = 1 - d"
    using d by (simp add: d_def)
  consider "d < 1 / 2" | "1 / 2 < d" | "d = 1 / 2" by linarith
  then show ?thesis
  proof cases
    case 1
    then have "round_half_even m = \<lfloor>m\<rfloor>"
      by (simp add: round_half_even_def Let_def d_def)
    then show ?thesis using lo 1 by simp
  next
    case 2
    then have "round_half_even m = \<lfloor>m\<rfloor> + 1"
      by (simp add: round_half_even_def Let_def d_def)
    then show ?thesis using hi 2 by simp
  next
    case 3
    then have "round_half_even m = \<lfloor>m\<rfloor> \<or> round_half_even m = \<lfloor>m\<rfloor> + 1"
      by (simp add: round_half_even_def Let_def d_def)
    then show ?thesis using lo hi 3 by auto
  qed
qed

lemma round_binary64_error: "\<bar>round_binary64 x - x\<bar> \<le> \<bar>x\<bar> / 2 ^ 53"
proof (cases "x = 0")
  case True
  then show ?thesis by (simp add: round_binary64_def)
next
  case False
  define k where "k = \<lfloor>log 2 \<bar>x\<bar>\<rfloor>"
  define s :: real where "s = 2 powr of_int (k - 52)"
  have s0: "0 < s" by (simp add: s_def)
  have lower: "2 powr of_int k \<le> \<bar>x\<bar>"
    using False floor_log_eq_powr_iff[of "\<bar>x\<bar>" 2 k] by (simp add: k_def)
  have r: "round_binary64 x = of_int (round_half_even (x / s)) * s"
    using False by (simp add: round_binary64_def Let_def k_def s_def)
  have "(of_int (round_half_even (x / s)) - x / s) * s = round_binary64 x - x"
    using s0 by (simp add: r left_diff_distrib)
  then have "\<bar>round_binary64 x - x\<bar> = \<bar>(of_int (round_half_even (x / s)) - x / s) * s\<bar>"
    by simp
  also have "\<dots> = \<bar>of_int (round_half_even (x / s)) - x / s\<bar> * s"
    using s0 by (simp only: abs_mult abs_of_pos)
  also have "\<dots> \<le> 1 / 2 * s"
    using s0 round_half_even_error[of "x / s"] by (intro mult_right_mono) simp_all
  also have "1 / 2 * s = 2 powr of_int k / 2 ^ 53"
  proof -
    have "s = 2 powr of_int k * 2 powr (- 52)"
      by (simp add: s_def powr_add[symmetric])
    then show ?thesis by (simp add: powr_minus_divide)
  qed
  also have "\<dots> \<le> \<bar>x\<bar> / 2 ^ 53"
    using lower by (simp add: divide_right_mono)
  finally show ?thesis .
qed

lemma reciprocal_product_error:
  assumes "a \<noteq> 0"
  shows "\<bar>round_binary64 (1 / a) * a - 1\<bar> \<le> 1 / 2 ^ 53"
proof -
  have "(round_binary64 (1 / a) - 1 / a) * a = round_binary64 (1 / a) * a - 1"
    using assms by (simp add: left_diff_distrib)
  then have "\<bar>round_binary64 (1 / a) * a - 1\<bar> = \<bar>(round_binary64 (1 / a) - 1 / a) * a\<bar>"
    by simp
  also have "\<dots> = \<bar>round_binary64 (1 / a) - 1 / a\<bar> * \<bar>a\<bar>"
    by (simp only: abs_mult)
  also have "\<dots> \<le> \<bar>1 / a\<bar> / 2 ^ 53 * \<bar>a\<bar>"
    by (intro mult_right_mono round_binary64_error) simp
  also have "\<dots> = 1 / 2 ^ 53"
    using assms by simp
  finally show ?thesis .
qed

text \<open>The binary64 probability is the exact probability, rounded.\<close>

lemma calculate_probability_binary64_rounds:
  "calculate_probability_binary64 self t d =
     (case calculate_probability self t d of Inl e \<Rightarrow> Inl e | Inr p \<Rightarrow> Inr (fl_round p))"
  by (simp add: calculate_probability_binary64_def calculate_probability_def fl_div64_def)

lemma prob_binary64_cases:
  assumes "ClimatologicalAnalyzer_init raw = Inr (self, ws)"
    and "calculate_probability_binary64 self t d = Inr p"
  shows "\<exists>a. p = Finite a"
  using assms(2) init_Inr(3)[OF assms(1)]
  by (auto simp: calculate_probability_binary64_def fl_div64_def fl_round_def fl_div_nat
      split: if_splits)

text \<open>
  Claim C2, amended. For an analyzer constructed from any raw array, any threshold and either
  direction, with \<open>p\<close> the probability as computed in binary64: the return period is
  computed; when \<open>p\<close> is zero it is plus infinity; otherwise it is the binary64 number
  nearest to the reciprocal of \<open>p\<close>, and the product of the return period and \<open>p\<close> differs
  from 1 by at most \<open>2\<^sup>-\<^sup>5\<^sup>3\<close>.
\<close>

theorem C2_return_period_rounded:
  assumes "ClimatologicalAnalyzer_init raw = Inr (self, ws)"
    and "calculate_probability_binary64 self t d = Inr p"
  shows "\<exists>rp. calculate_return_period_binary64 self t d = Inr rp
           \<and> (if fl_eq p (Finite 0) then rp = PosInf
              else \<exists>a b. p = Finite a \<and> rp = Finite b \<and> b = round_binary64 (1 / a)
                     \<and> \<bar>b * a - 1\<bar> \<le> 1 / 2 ^ 53)"
proof -
  obtain a where p: "p = Finite a"
    using prob_binary64_cases[OF assms] by blast
  show ?thesis
  proof (cases "a = 0")
    case True
    then show ?thesis
      using assms(2) by (simp add: calculate_return_period_binary64_def p)
  next
    case False
    then have "calculate_return_period_binary64 self t d = Inr (Finite (round_binary64 (1 / a)))"
      using assms(2)
      by (simp add: calculate_return_period_binary64_def p fl_div64_def fl_round_def)
    then show ?thesis
      using False reciprocal_product_error[OF False] by (simp add: p)
  qed
qed

theorem C2_witness:
  "calculate_probability_binary64
       \<lparr>data = [Finite 10, Finite 20, Finite 30, Finite 40, Finite 50, Finite 60, Finite 70,
                Finite 80, Finite 90], n_years = 9\<rparr> (Finite 95) ''exceeds'' = Inr (Finite 0)
   \<and> calculate_return_period_binary64
       \<lparr>data = [Finite 10, Finite 20, Finite 30, Finite 40, Finite 50, Finite 60, Finite 70,
                Finite 80, Finite 90], n_years = 9\<rparr> (Finite 95) ''exceeds'' = Inr PosInf
   \<and> calculate_probability_binary64
       \<lparr>data = [Finite 10, Finite 20, Finite 30, Finite 40, Finite 50, Finite 60, Finite 70,
                Finite 80, Finite 90], n_years = 9\<rparr> (Finite 25) ''exceeds'' =
       Inr (Finite (7005599420354105 / 2 ^ 53))
   \<and> calculate_return_period_binary64
       \<lparr>data = [Finite 10, Finite 20, Finite 30, Finite 40, Finite 50, Finite 60, Finite 70,
                Finite 80, Finite 90], n_years = 9\<rparr> (Finite 25) ''exceeds'' =
       Inr (Finite (round_binary64 (1 / (7005599420354105 / 2 ^ 53))))
   \<and> \<bar>round_binary64 (1 / (7005599420354105 / 2 ^ 53)) * (7005599420354105 / 2 ^ 53) - 1\<bar>
       \<le> 1 / 2 ^ 53"
proof -
  let ?a = "\<lparr>data = [Finite 10, Finite 20, Finite 30, Finite 40, Finite 50, Finite 60, Finite 70,
                  Finite 80, Finite 90], n_years = 9\<rparr>"
  have i: "ClimatologicalAnalyzer_init
     [Finite 10, Finite 20, Finite 30, Finite 40, Finite 50, Finite 60, Finite 70, Finite 80,
      Finite 90] = Inr (?a, [low_data_warning 9])"
    by code_simp
  have p0: "calculate_probability_binary64 ?a (Finite 95) ''exceeds'' = Inr (Finite 0)"
    by (simp add: calculate_probability_binary64_def np_sum_bool_def fl_gt_def fl_of_nat_def
        fl_div64_def fl_round_def round_binary64_def)
  have p7: "calculate_probability_binary64 ?a (Finite 25) ''exceeds'' =
             Inr (Finite (7005599420354105 / 2 ^ 53))"
    by (simp add: calculate_probability_binary64_def np_sum_bool_def fl_gt_def fl_of_nat_def
        fl_div64_def fl_round_def round_7_9)
  have r0: "calculate_return_period_binary64 ?a (Finite 95) ''exceeds'' = Inr PosInf"
    using C2_return_period_rounded[OF i p0] by simp
  have nz: "\<not> fl_eq (Finite (7005599420354105 / 2 ^ 53)) (Finite 0)"
    by simp
  have "\<exists>rp. calculate_return_period_binary64 ?a (Finite 25) ''exceeds'' = Inr rp
           \<and> (\<exists>a b. Finite (7005599420354105 / 2 ^ 53) = Finite a \<and> rp = Finite b
                  \<and> b = round_binary64 (1 / a) \<and> \<bar>b * a - 1\<bar> \<le> 1 / 2 ^ 53)"
    using C2_return_period_rounded[OF i p7] nz by (simp only: if_False)
  then obtain rp a b where
    r: "calculate_return_period_binary64 ?a (Finite 25) ''exceeds'' = Inr rp"
    and a: "Finite (7005599420354105 / 2 ^ 53) = Finite a"
    and b: "rp = Finite b" "b = round_binary64 (1 / a)" "\<bar>b * a - 1\<bar> \<le> 1 / 2 ^ 53"
    by (elim exE conjE)
  have a': "a = 7005599420354105 / 2 ^ 53"
    using a by (simp only: npfloat.inject)
  have r7: "calculate_return_period_binary64 ?a (Finite 25) ''exceeds'' =
              Inr (Finite (round_binary64 (1 / (7005599420354105 / 2 ^ 53))))"
    using r b(1,2) by (simp only: a')
  have e7: "\<bar>round_binary64 (1 / (7005599420354105 / 2 ^ 53)) * (7005599420354105 / 2 ^ 53) - 1\<bar>
              \<le> 1 / 2 ^ 53"
    using b(2,3) by (simp only: a')
  show ?thesis
    using p0 r0 p7 r7 e7 by (intro conjI)
qed

text \<open>
  Claim C10. For every threshold and every condition string other than \<open>'exceeds'\<close> and
  \<open>'below'\<close>, \<open>calculate_probability\<close> raises the \<open>ValueError\<close> whose message says that the
  condition must be one of the two, and \<open>calculate_return_period\<close> raises the same error.
  Neither method assigns to the analyzer, so each is a function of it that returns only its
  result.
\<close>

theorem C10_invalid_condition:
  assumes "condition \<noteq> ''exceeds''" and "condition \<noteq> ''below''"
  shows "calculate_probability self t condition =
           Inl (ValueError (''Condition must be 'exceeds' or 'below'' @ [CHR 0x27]))
       \<and> calculate_return_period self t condition =
           Inl (ValueError (''Condition must be 'exceeds' or 'below'' @ [CHR 0x27]))"
  using assms
  by (simp add: calculate_probability_def calculate_return_period_def condition_error_def)

theorem C10_witness:
  "calculate_probability \<lparr>data = [Finite 10, Finite 20], n_years = 2\<rparr> (Finite 15) ''above'' =
     Inl (ValueError (''Condition must be 'exceeds' or 'below'' @ [CHR 0x27]))
   \<and> calculate_return_period \<lparr>data = [Finite 10, Finite 20], n_years = 2\<rparr> (Finite 15) ''above'' =
     Inl (ValueError (''Condition must be 'exceeds' or 'below'' @ [CHR 0x27]))"
  using C10_invalid_condition
          [of "''above''" "\<lparr>data = [Finite 10, Finite 20], n_years = 2\<rparr>" "Finite 15"]
  by simp

section \<open>Sample preparation\<close>

text \<open>
  An array holding an infinity and a NaN has no finite entry, yet construction succeeds and
  the infinity stays in the sample: only NaN is dropped.
\<close>

theorem C4_counterexample:
  "filter isfinite [PosInf, NaN] = []
   \<and> ClimatologicalAnalyzer_init [PosInf, NaN] =
       Inr (\<lparr>data = [PosInf], n_years = 1\<rparr>, [low_data_warning 1])"
  by (simp add: ClimatologicalAnalyzer_init_def isnan_def isfinite_def)

text \<open>
  Claim C4, amended. Construction drops exactly the NaN entries of a numeric array and keeps
  every other entry, the infinities included, in order. It fails, with the \<open>ValueError\<close>
  \<open>No valid data points provided\<close>, if and only if nothing is left, that is when every
  entry is NaN. Otherwise it succeeds with the sample size equal to the number of entries
  kept; below ten entries it emits one warning and from ten on none, and the analyzer it
  builds does not depend on whether it warned.
\<close>

theorem C4_init_drops_nan_only:
  "(case ClimatologicalAnalyzer_init raw of
      Inl e \<Rightarrow> e = ValueError ''No valid data points provided'' \<and> (\<forall>x \<in> set raw. isnan x)
    | Inr (self, ws) \<Rightarrow>
        self = \<lparr>data = filter (\<lambda>x. \<not> isnan x) raw,
                n_years = length (filter (\<lambda>x. \<not> isnan x) raw)\<rparr>
      \<and> 0 < n_years self
      \<and> (\<forall>x \<in> set raw. x \<in> set (data self) \<longleftrightarrow> x \<noteq> NaN)
      \<and> ws = (if n_years self < 10 then [low_data_warning (n_years self)] else []))"
  by (auto simp: ClimatologicalAnalyzer_init_def Let_def isnan_def filter_empty_conv)

theorem C4_witness:
  "ClimatologicalAnalyzer_init [Finite 3, NaN, NegInf] =
      Inr (\<lparr>data = [Finite 3, NegInf], n_years = 2\<rparr>, [low_data_warning 2])
   \<and> ClimatologicalAnalyzer_init [NaN, NaN] = Inl (ValueError ''No valid data points provided'')"
  using C4_init_drops_nan_only[of "[Finite 3, NaN, NegInf]"]
        C4_init_drops_nan_only[of "[NaN, NaN]"]
  by (auto simp: isnan_def numeral_2_eq_2 split: sum.splits)

section \<open>Risk category\<close>

lemma categorize_risk_missing:
  assumes "assessment ''basic_stats'' = None
           \<or> (\<exists>stats. assessment ''basic_stats'' = Some stats
                 \<and> (stats ''std_dev'' = None \<or> stats ''mean'' = None))"
  shows "categorize_risk assessment = ''Unknown''"
  using assms by (auto simp: categorize_risk_def split: option.splits)

lemma categorize_risk_cv:
  assumes "assessment ''basic_stats'' = Some stats"
    and "stats ''std_dev'' = Some sd" and "stats ''mean'' = Some m"
    and "cv = (if fl_eq m (Finite 0) then PosInf else fl_div sd (fl_abs m))"
  shows "categorize_risk assessment =
           (if fl_lt cv (Finite 0.1) then ''Low''
            else if fl_lt cv (Finite 0.3) then ''Moderate''
            else if fl_lt cv (Finite 0.5) then ''High''
            else ''Very High'')"
  using assms by (simp add: categorize_risk_def Let_def fl_ne_def)

lemma band_chain:
  "(fl_lt cv (Finite 0.1) \<longrightarrow>
      (if fl_lt cv (Finite 0.1) then ''Low''
       else if fl_lt cv (Finite 0.3) then ''Moderate''
       else if fl_lt cv (Finite 0.5) then ''High'' else ''Very High'') = ''Low'')
 \<and> (fl_le (Finite 0.1) cv \<and> fl_lt cv (Finite 0.3) \<longrightarrow>
      (if fl_lt cv (Finite 0.1) then ''Low''
       else if fl_lt cv (Finite 0.3) then ''Moderate''
       else if fl_lt cv (Finite 0.5) then ''High'' else ''Very High'') = ''Moderate'')
 \<and> (fl_le (Finite 0.3) cv \<and> fl_lt cv (Finite 0.5) \<longrightarrow>
      (if fl_lt cv (Finite 0.1) then ''Low''
       else if fl_lt cv (Finite 0.3) then ''Moderate''
       else if fl_lt cv (Finite 0.5) then ''High'' else ''Very High'') = ''High'')
 \<and> (fl_le (Finite 0.5) cv \<longrightarrow>
      (if fl_lt cv (Finite 0.1) then ''Low''
       else if fl_lt cv (Finite 0.3) then ''Moderate''
       else if fl_lt cv (Finite 0.5) then ''High'' else ''Very High'') = ''Very High'')"
  by (cases cv) (auto simp: fl_le_def)

text \<open>
  Claim C5. With \<open>cv\<close> the standard deviation divided by the absolute value of the mean,
  or plus infinity when the mean equals zero: \<open>cv < 0.1\<close> gives \<open>Low\<close>,
  \<open>0.1 \<le> cv < 0.3\<close> gives \<open>Moderate\<close>, \<open>0.3 \<le> cv < 0.5\<close> gives \<open>High\<close> and
  \<open>cv \<ge> 0.5\<close> gives \<open>Very High\<close>, as does a mean of zero. So \<open>cv\<close> exactly 0.1 is
  \<open>Moderate\<close>, exactly 0.3 is \<open>High\<close> and exactly 0.5 is \<open>Very High\<close>. When the
  statistics, the standard deviation or the mean cannot be read from the assessment, the
  category is \<open>Unknown\<close>.
\<close>

theorem C5_risk_bands:
  "(assessment ''basic_stats'' = None \<longrightarrow> categorize_risk assessment = ''Unknown'')
 \<and> (assessment ''basic_stats'' = Some stats \<and> (stats ''std_dev'' = None \<or> stats ''mean'' = None)
      \<longrightarrow> categorize_risk assessment = ''Unknown'')
 \<and> (assessment ''basic_stats'' = Some stats \<and> stats ''std_dev'' = Some sd
      \<and> stats ''mean'' = Some m
      \<and> cv = (if fl_eq m (Finite 0) then PosInf else fl_div sd (fl_abs m)) \<longrightarrow>
        (fl_lt cv (Finite 0.1) \<longrightarrow> categorize_risk assessment = ''Low'')
      \<and> (fl_le (Finite 0.1) cv \<and> fl_lt cv (Finite 0.3) \<longrightarrow>
            categorize_risk assessment = ''Moderate'')
      \<and> (fl_le (Finite 0.3) cv \<and> fl_lt cv (Finite 0.5) \<longrightarrow>
            categorize_risk assessment = ''High'')
      \<and> (fl_le (Finite 0.5) cv \<longrightarrow> categorize_risk assessment = ''Very High'')
      \<and> (fl_eq m (Finite 0) \<longrightarrow> categorize_risk assessment = ''Very High''))"
proof (intro conjI impI)
  assume "assessment ''basic_stats'' = None"
  then show "categorize_risk assessment = ''Unknown''"
    by (simp add: categorize_risk_missing)
next
  assume "assessment ''basic_stats'' = Some stats \<and> (stats ''std_dev'' = None \<or> stats ''mean'' = None)"
  then show "categorize_risk assessment = ''Unknown''"
    by (intro categorize_risk_missing) blast
next
  assume h: "assessment ''basic_stats'' = Some stats \<and> stats ''std_dev'' = Some sd
      \<and> stats ''mean'' = Some m
      \<and> cv = (if fl_eq m (Finite 0) then PosInf else fl_div sd (fl_abs m))"
  then have eq: "categorize_risk assessment =
           (if fl_lt cv (Finite 0.1) then ''Low''
            else if fl_lt cv (Finite 0.3) then ''Moderate''
            else if fl_lt cv (Finite 0.5) then ''High''
            else ''Very High'')"
    by (intro categorize_risk_cv[of assessment stats sd m]) simp_all
  { assume "fl_lt cv (Finite 0.1)"
    then show "categorize_risk assessment = ''Low''"
      using band_chain[of cv] unfolding eq by blast }
  { assume "fl_le (Finite 0.1) cv \<and> fl_lt cv (Finite 0.3)"
    then show "categorize_risk assessment = ''Moderate''"
      using band_chain[of cv] unfolding eq by blast }
  { assume "fl_le (Finite 0.3) cv \<and> fl_lt cv (Finite 0.5)"
    then show "categorize_risk assessment = ''High''"
      using band_chain[of cv] unfolding eq by blast }
  { assume "fl_le (Finite 0.5) cv"
    then show "categorize_risk assessment = ''Very High''"
      using band_chain[of cv] unfolding eq by blast }
  { assume "fl_eq m (Finite 0)"
    with h have "cv = PosInf" by simp
    then show "categorize_risk assessment = ''Very High''"
      unfolding eq by simp }
qed

theorem C5_witness:
  "categorize_risk [''basic_stats'' \<mapsto> [''std_dev'' \<mapsto> Finite 1, ''mean'' \<mapsto> Finite 10]] = ''Moderate''
 \<and> categorize_risk [''basic_stats'' \<mapsto> [''std_dev'' \<mapsto> Finite 3, ''mean'' \<mapsto> Finite (- 10)]] = ''High''
 \<and> categorize_risk [''basic_stats'' \<mapsto> [''std_dev'' \<mapsto> Finite 5, ''mean'' \<mapsto> Finite 10]] = ''Very High''
 \<and> categorize_risk [''basic_stats'' \<mapsto> [''std_dev'' \<mapsto> Finite 0, ''mean'' \<mapsto> Finite 20]] = ''Low''
 \<and> categorize_risk [''basic_stats'' \<mapsto> [''std_dev'' \<mapsto> Finite 0, ''mean'' \<mapsto> Finite 0]] = ''Very High''
 \<and> categorize_risk [''basic_stats'' \<mapsto> [''std_dev'' \<mapsto> Finite 1]] = ''Unknown''
 \<and> categorize_risk Map.empty = ''Unknown''"
  using C5_risk_bands[of "[''basic_stats'' \<mapsto> [''std_dev'' \<mapsto> Finite 1, ''mean'' \<mapsto> Finite 10]]"
          "[''std_dev'' \<mapsto> Finite 1, ''mean'' \<mapsto> Finite 10]" "Finite 1" "Finite 10" "Finite (1/10)"]
    C5_risk_bands[of "[''basic_stats'' \<mapsto> [''std_dev'' \<mapsto> Finite 3, ''mean'' \<mapsto> Finite (- 10)]]"
          "[''std_dev'' \<mapsto> Finite 3, ''mean'' \<mapsto> Finite (- 10)]" "Finite 3" "Finite (- 10)" "Finite (3/10)"]
    C5_risk_bands[of "[''basic_stats'' \<mapsto> [''std_dev'' \<mapsto> Finite 5, ''mean'' \<mapsto> Finite 10]]"
          "[''std_dev'' \<mapsto> Finite 5, ''mean'' \<mapsto> Finite 10]" "Finite 5" "Finite 10" "Finite (1/2)"]
    C5_risk_bands[of "[''basic_stats'' \<mapsto> [''std_dev'' \<mapsto> Finite 0, ''mean'' \<mapsto> Finite 20]]"
          "[''std_dev'' \<mapsto> Finite 0, ''mean'' \<mapsto> Finite 20]" "Finite 0" "Finite 20" "Finite 0"]
    C5_risk_bands[of "[''basic_stats'' \<mapsto> [''std_dev'' \<mapsto> Finite 0, ''mean'' \<mapsto> Finite 0]]"
          "[''std_dev'' \<mapsto> Finite 0, ''mean'' \<mapsto> Finite 0]" "Finite 0" "Finite 0" "PosInf"]
    C5_risk_bands[of "[''basic_stats'' \<mapsto> [''std_dev'' \<mapsto> Finite 1]]"
          "[''std_dev'' \<mapsto> Finite 1]"]
    C5_risk_bands[of "Map.empty"]
  by (simp add: fl_le_def)

section \<open>Trend detection\<close>

text \<open>
  Claim C8. Whenever the regression succeeds, the record returned has \<open>significant\<close> true
  if and only if the p-value is less than 0.05, \<open>direction\<close> equal to \<open>increasing\<close> when
  the slope is greater than zero and to \<open>decreasing\<close> otherwise (so also at slope zero), and
  \<open>trend_strength\<close> equal to the absolute value of the correlation coefficient.
\<close>

theorem C8_trend_success:
  assumes "linregress lib (np_arange (n_years self)) (data self) = Inr (sl, ic, rv, pv, se)"
  shows "slope (detect_trend lib self) = sl
       \<and> p_value (detect_trend lib self) = pv
       \<and> r_value (detect_trend lib self) = Some rv
       \<and> (significant (detect_trend lib self) \<longleftrightarrow> fl_lt pv (Finite 0.05))
       \<and> direction (detect_trend lib self) =
           (if fl_gt sl (Finite 0) then ''increasing'' else ''decreasing'')
       \<and> (fl_eq sl (Finite 0) \<longrightarrow> direction (detect_trend lib self) = ''decreasing'')
       \<and> trend_strength (detect_trend lib self) = Some (fl_abs rv)
       \<and> error (detect_trend lib self) = None"
  using assms by (cases sl) (auto simp: detect_trend_def Let_def fl_gt_def)

theorem C8_witness:
  "linregress fixed_stats (np_arange 3) [Finite 20, Finite 20, Finite 20] =
     Inr (Finite 0, Finite 20, Finite 0, Finite 1, Finite 0)
   \<and> significant (detect_trend fixed_stats \<lparr>data = [Finite 20, Finite 20, Finite 20], n_years = 3\<rparr>) = False
   \<and> direction (detect_trend fixed_stats \<lparr>data = [Finite 20, Finite 20, Finite 20], n_years = 3\<rparr>) =
       ''decreasing''
   \<and> trend_strength (detect_trend fixed_stats \<lparr>data = [Finite 20, Finite 20, Finite 20], n_years = 3\<rparr>) =
       Some (Finite 0)"
proof -
  have h: "linregress fixed_stats
             (np_arange (n_years \<lparr>data = [Finite 20, Finite 20, Finite 20], n_years = 3\<rparr>))
             (data \<lparr>data = [Finite 20, Finite 20, Finite 20], n_years = 3\<rparr>) =
           Inr (Finite 0, Finite 20, Finite 0, Finite 1, Finite 0)"
    by (simp add: fixed_stats_def)
  show ?thesis
    using h C8_trend_success[OF h] by (simp add: fl_gt_def)
qed

lemma np_min_Inr: "xs \<noteq> [] \<Longrightarrow> \<exists>m. np_min xs = Inr m"
  by (cases xs) simp_all

lemma np_max_Inr: "xs \<noteq> [] \<Longrightarrow> \<exists>m. np_max xs = Inr m"
  by (cases xs) simp_all

lemma hot_fields:
  "\<exists>hp hrp. (case hot_t of
                 None \<Rightarrow> Inr (None, None)
               | Some h \<Rightarrow>
                   bind_err (calculate_probability self h ''exceeds'') (\<lambda>p.
                   bind_err (calculate_return_period self h ''exceeds'') (\<lambda>rp.
                     Inr (Some p, Some rp)))) = Inr (hp, hrp)"
  by (cases hot_t) (auto simp: bind_err_def calculate_probability_def calculate_return_period_def)

lemma cold_fields:
  "\<exists>cp crp. (case cold_t of
                 None \<Rightarrow> Inr (None, None)
               | Some c \<Rightarrow>
                   bind_err (calculate_probability self c ''below'') (\<lambda>p.
                   bind_err (calculate_return_period self c ''below'') (\<lambda>rp.
                     Inr (Some p, Some rp)))) = Inr (cp, crp)"
  by (cases cold_t) (auto simp: bind_err_def calculate_probability_def calculate_return_period_def)

lemma generate_risk_assessment_Inr:
  assumes "data self \<noteq> []"
  shows "\<exists>a. generate_risk_assessment lib self thresholds = Inr a
           \<and> trend_analysis a = detect_trend lib self
           \<and> percentiles a = get_percentiles self
           \<and> extreme_values a = get_extreme_value_analysis lib self
           \<and> risk_category a = categorize_risk [''basic_stats'' \<mapsto> basic_stats a]
           \<and> basic_stats a ''mean'' = Some (np_mean (data self))
           \<and> basic_stats a ''std_dev'' = Some (np_std 0 (data self))"
proof -
  obtain mn where mn: "np_min (data self) = Inr mn" using np_min_Inr[OF assms] by blast
  obtain mx where mx: "np_max (data self) = Inr mx" using np_max_Inr[OF assms] by blast
  obtain hp hrp where h: "(case hot thresholds of
                 None \<Rightarrow> Inr (None, None)
               | Some h \<Rightarrow>
                   bind_err (calculate_probability self h ''exceeds'') (\<lambda>p.
                   bind_err (calculate_return_period self h ''exceeds'') (\<lambda>rp.
                     Inr (Some p, Some rp)))) = Inr (hp, hrp)"
    using hot_fields by blast
  obtain cp crp where c: "(case cold thresholds of
                 None \<Rightarrow> Inr (None, None)
               | Some c \<Rightarrow>
                   bind_err (calculate_probability self c ''below'') (\<lambda>p.
                   bind_err (calculate_return_period self c ''below'') (\<lambda>rp.
                     Inr (Some p, Some rp)))) = Inr (cp, crp)"
    using cold_fields by blast
  show ?thesis
    unfolding generate_risk_assessment_def mn mx h c
    by (simp add: bind_err_def Let_def)
qed

text \<open>
  A constant sample has zero variance. The regression returns on it, so \<open>detect_trend\<close>
  returns the full record: direction \<open>decreasing\<close> and no error entry, not the reduced
  record with direction \<open>no trend\<close>.
\<close>

theorem C7_counterexample:
  "ClimatologicalAnalyzer_init [Finite 20, Finite 20, Finite 20] =
     Inr (\<lparr>data = [Finite 20, Finite 20, Finite 20], n_years = 3\<rparr>, [low_data_warning 3])
   \<and> linregress fixed_stats (np_arange 3) [Finite 20, Finite 20, Finite 20] =
       Inr (Finite 0, Finite 20, Finite 0, Finite 1, Finite 0)
   \<and> detect_trend fixed_stats \<lparr>data = [Finite 20, Finite 20, Finite 20], n_years = 3\<rparr> =
       \<lparr>slope = Finite 0, intercept = Some (Finite 20), r_value = Some (Finite 0),
        p_value = Finite 1, std_err = Some (Finite 0), significant = False,
        direction = ''decreasing'', trend_strength = Some (Finite 0), error = None\<rparr>"
proof -
  have i: "ClimatologicalAnalyzer_init [Finite 20, Finite 20, Finite 20] =
     Inr (\<lparr>data = [Finite 20, Finite 20, Finite 20], n_years = 3\<rparr>, [low_data_warning 3])"
    by code_simp
  have l: "linregress fixed_stats (np_arange 3) [Finite 20, Finite 20, Finite 20] =
             Inr (Finite 0, Finite 20, Finite 0, Finite 1, Finite 0)"
    by (simp add: fixed_stats_def)
  have d: "detect_trend fixed_stats \<lparr>data = [Finite 20, Finite 20, Finite 20], n_years = 3\<rparr> =
       \<lparr>slope = Finite 0, intercept = Some (Finite 20), r_value = Some (Finite 0),
        p_value = Finite 1, std_err = Some (Finite 0), significant = False,
        direction = ''decreasing'', trend_strength = Some (Finite 0), error = None\<rparr>"
    by (simp add: detect_trend_def Let_def fixed_stats_def fl_gt_def)
  show ?thesis
    using i l d by (intro conjI)
qed

lemma detect_trend_raise:
  assumes "linregress lib (np_arange (n_years self)) (data self) = Inl msg"
  shows "detect_trend lib self =
           \<lparr>slope = Finite 0, intercept = None, r_value = None, p_value = Finite 1,
            std_err = None, significant = False, direction = ''no trend'',
            trend_strength = None, error = Some msg\<rparr>"
  using assms by (simp add: detect_trend_def Let_def)

lemma detect_trend_return:
  assumes "linregress lib (np_arange (n_years self)) (data self) = Inr (sl, ic, rv, pv, se)"
  shows "error (detect_trend lib self) = None
       \<and> direction (detect_trend lib self) =
           (if fl_gt sl (Finite 0) then ''increasing'' else ''decreasing'')
       \<and> slope (detect_trend lib self) = sl
       \<and> p_value (detect_trend lib self) = pv"
  using assms by (simp add: detect_trend_def Let_def)

text \<open>
  Claim C7, amended. \<open>detect_trend\<close> never raises, on any sample. When the regression
  raises, it returns the reduced record: slope 0, p-value 1, not significant, direction
  \<open>no trend\<close>, and as error description the message of the exception. When the regression
  returns, as it does on a sample of zero variance, it returns the full record, which has
  no error entry and direction \<open>increasing\<close> or \<open>decreasing\<close>. In both cases the
  full assessment of a constructed analyzer is produced: it holds that record as its trend
  analysis, next to the statistics, the percentiles, the extreme-value result and the risk
  category.
\<close>

theorem C7_trend_never_raises:
  assumes "ClimatologicalAnalyzer_init raw = Inr (self, ws)"
  shows "(case linregress lib (np_arange (n_years self)) (data self) of
            Inl msg \<Rightarrow>
              detect_trend lib self =
                \<lparr>slope = Finite 0, intercept = None, r_value = None, p_value = Finite 1,
                 std_err = None, significant = False, direction = ''no trend'',
                 trend_strength = None, error = Some msg\<rparr>
          | Inr (sl, ic, rv, pv, se) \<Rightarrow>
              error (detect_trend lib self) = None
            \<and> direction (detect_trend lib self) =
                (if fl_gt sl (Finite 0) then ''increasing'' else ''decreasing'')
            \<and> slope (detect_trend lib self) = sl
            \<and> p_value (detect_trend lib self) = pv)
       \<and> (\<exists>a. generate_risk_assessment lib self thresholds = Inr a
              \<and> trend_analysis a = detect_trend lib self
              \<and> percentiles a = get_percentiles self
              \<and> extreme_values a = get_extreme_value_analysis lib self
              \<and> risk_category a = categorize_risk [''basic_stats'' \<mapsto> basic_stats a]
              \<and> basic_stats a ''mean'' = Some (np_mean (data self))
              \<and> basic_stats a ''std_dev'' = Some (np_std 0 (data self)))"
proof -
  have ne: "data self \<noteq> []"
    using init_Inr(2,3)[OF assms(1)] by auto
  have t: "case linregress lib (np_arange (n_years self)) (data self) of
            Inl msg \<Rightarrow>
              detect_trend lib self =
                \<lparr>slope = Finite 0, intercept = None, r_value = None, p_value = Finite 1,
                 std_err = None, significant = False, direction = ''no trend'',
                 trend_strength = None, error = Some msg\<rparr>
          | Inr (sl, ic, rv, pv, se) \<Rightarrow>
              error (detect_trend lib self) = None
            \<and> direction (detect_trend lib self) =
                (if fl_gt sl (Finite 0) then ''increasing'' else ''decreasing'')
            \<and> slope (detect_trend lib self) = sl
            \<and> p_value (detect_trend lib self) = pv"
    using detect_trend_raise[of lib self] detect_trend_return[of lib self]
    by (auto split: sum.splits)
  show ?thesis
    using t generate_risk_assessment_Inr[OF ne] by blast
qed

theorem C7_witness:
  "ClimatologicalAnalyzer_init [Finite 20, Finite 20, Finite 20] =
     Inr (\<lparr>data = [Finite 20, Finite 20, Finite 20], n_years = 3\<rparr>, [low_data_warning 3])
   \<and> error (detect_trend fixed_stats \<lparr>data = [Finite 20, Finite 20, Finite 20], n_years = 3\<rparr>)
       = None
   \<and> slope (detect_trend fixed_stats \<lparr>data = [Finite 20, Finite 20, Finite 20], n_years = 3\<rparr>)
       = Finite 0
   \<and> (\<exists>a. generate_risk_assessment fixed_stats
             \<lparr>data = [Finite 20, Finite 20, Finite 20], n_years = 3\<rparr>
             \<lparr>hot = Some (Finite 32), cold = None, comfortable = None\<rparr> = Inr a
          \<and> trend_analysis a =
              detect_trend fixed_stats \<lparr>data = [Finite 20, Finite 20, Finite 20], n_years = 3\<rparr>
          \<and> risk_category a = ''Low'')"
proof -
  let ?a = "\<lparr>data = [Finite 20, Finite 20, Finite 20], n_years = 3\<rparr>"
  have h: "ClimatologicalAnalyzer_init [Finite 20, Finite 20, Finite 20] =
             Inr (?a, [low_data_warning 3])"
    by code_simp
  have l: "linregress fixed_stats (np_arange 3) [Finite 20, Finite 20, Finite 20] =
             Inr (Finite 0, Finite 20, Finite 0, Finite 1, Finite 0)"
    by (simp add: fixed_stats_def)
  have m: "np_mean [Finite 20, Finite 20, Finite 20] = Finite 20"
    by (simp add: np_mean_def np_sum_def fl_of_nat_def)
  have s: "np_std 0 [Finite 20, Finite 20, Finite 20] = Finite 0"
    by (simp add: np_std_def np_var_def m np_sum_def fl_of_nat_def fl_sub_def)
  have c: "\<And>stats. stats ''mean'' = Some (Finite 20) \<Longrightarrow> stats ''std_dev'' = Some (Finite 0)
             \<Longrightarrow> categorize_risk [''basic_stats'' \<mapsto> stats] = ''Low''"
    by (simp add: categorize_risk_def fl_ne_def)
  show ?thesis
    using h C7_trend_never_raises
            [OF h, of fixed_stats "\<lparr>hot = Some (Finite 32), cold = None, comfortable = None\<rparr>"]
    by (auto simp: l m s c)
qed

section \<open>Extreme values\<close>

lemma year_keys:
  "str_nat 2 @ ''_year'' = ''2_year''" "str_nat 5 @ ''_year'' = ''5_year''"
  "str_nat 10 @ ''_year'' = ''10_year''" "str_nat 20 @ ''_year'' = ''20_year''"
  "str_nat 50 @ ''_year'' = ''50_year''" "str_nat 100 @ ''_year'' = ''100_year''"
  by (simp_all add: str_nat.simps digit_char_def)

lemma return_probability:
  "2 \<le> T \<Longrightarrow> 0 < beta \<Longrightarrow>
   gumbel_r_ppf (fl_sub (Finite 1) (fl_div (Finite 1) (fl_of_nat T))) (Finite mu) (Finite beta) =
     Finite (spec_return_value mu beta T)"
  by (simp add: fl_sub_def fl_of_nat_def spec_return_value_def)

lemma return_values_fold:
  assumes "0 < beta"
  shows "foldl (\<lambda>rvs period.
             rvs(str_nat period @ ''_year'' \<mapsto>
               gumbel_r_ppf (fl_sub (Finite 1) (fl_div (Finite 1) (fl_of_nat period)))
                 (Finite mu) (Finite beta)))
          Map.empty return_periods =
         [''2_year'' \<mapsto> Finite (spec_return_value mu beta 2),
          ''5_year'' \<mapsto> Finite (spec_return_value mu beta 5),
          ''10_year'' \<mapsto> Finite (spec_return_value mu beta 10),
          ''20_year'' \<mapsto> Finite (spec_return_value mu beta 20),
          ''50_year'' \<mapsto> Finite (spec_return_value mu beta 50),
          ''100_year'' \<mapsto> Finite (spec_return_value mu beta 100)]"
proof -
  note rp = return_probability[OF _ assms, of _ mu]
  have p: "gumbel_r_ppf (fl_sub (Finite 1) (fl_div (Finite 1) (fl_of_nat 2))) (Finite mu) (Finite beta)
             = Finite (spec_return_value mu beta 2)"
    "gumbel_r_ppf (fl_sub (Finite 1) (fl_div (Finite 1) (fl_of_nat 5))) (Finite mu) (Finite beta)
             = Finite (spec_return_value mu beta 5)"
    "gumbel_r_ppf (fl_sub (Finite 1) (fl_div (Finite 1) (fl_of_nat 10))) (Finite mu) (Finite beta)
             = Finite (spec_return_value mu beta 10)"
    "gumbel_r_ppf (fl_sub (Finite 1) (fl_div (Finite 1) (fl_of_nat 20))) (Finite mu) (Finite beta)
             = Finite (spec_return_value mu beta 20)"
    "gumbel_r_ppf (fl_sub (Finite 1) (fl_div (Finite 1) (fl_of_nat 50))) (Finite mu) (Finite beta)
             = Finite (spec_return_value mu beta 50)"
    "gumbel_r_ppf (fl_sub (Finite 1) (fl_div (Finite 1) (fl_of_nat 100))) (Finite mu) (Finite beta)
             = Finite (spec_return_value mu beta 100)"
    by (rule rp, simp)+
  show ?thesis
    by (simp only: return_periods_def foldl.simps Let_def year_keys p)
qed

lemma return_values_dom:
  "dom [''2_year'' \<mapsto> a, ''5_year'' \<mapsto> b, ''10_year'' \<mapsto> c, ''20_year'' \<mapsto> d,
        ''50_year'' \<mapsto> e, ''100_year'' \<mapsto> (f::npfloat)] =
     {''2_year'', ''5_year'', ''10_year'', ''20_year'', ''50_year'', ''100_year''}"
  by auto

lemma return_values_lookup:
  fixes a b c d e f :: npfloat
  defines "m \<equiv> [''2_year'' \<mapsto> a, ''5_year'' \<mapsto> b, ''10_year'' \<mapsto> c, ''20_year'' \<mapsto> d,
        ''50_year'' \<mapsto> e, ''100_year'' \<mapsto> f]"
  shows "m ''2_year'' = Some a" "m ''5_year'' = Some b" "m ''10_year'' = Some c"
    "m ''20_year'' = Some d" "m ''50_year'' = Some e" "m ''100_year'' = Some f"
  by (simp_all add: m_def)

text \<open>
  Claim C9. Whenever the Gumbel fit succeeds with location \<open>mu\<close> and scale \<open>beta > 0\<close>, the
  extreme-value result holds the fitted parameters and a table of return values whose keys
  are exactly \<open>2_year\<close>, \<open>5_year\<close>, \<open>10_year\<close>, \<open>20_year\<close>, \<open>50_year\<close> and \<open>100_year\<close>,
  the entry for \<open>T\<close> being \<open>mu - beta * ln (- ln (1 - 1/T))\<close>.
\<close>

theorem C9_gumbel_return_values:
  assumes "gumbel_r_fit lib (data self) = Inr (Finite mu, Finite beta)" and "0 < beta"
  shows "\<exists>rvs gof. get_extreme_value_analysis lib self = ExtremeValues (Finite mu, Finite beta) rvs gof
           \<and> dom rvs = {''2_year'', ''5_year'', ''10_year'', ''20_year'', ''50_year'', ''100_year''}
           \<and> rvs ''2_year'' = Some (Finite (mu - beta * ln (- ln (1 - 1 / 2))))
           \<and> rvs ''5_year'' = Some (Finite (mu - beta * ln (- ln (1 - 1 / 5))))
           \<and> rvs ''10_year'' = Some (Finite (mu - beta * ln (- ln (1 - 1 / 10))))
           \<and> rvs ''20_year'' = Some (Finite (mu - beta * ln (- ln (1 - 1 / 20))))
           \<and> rvs ''50_year'' = Some (Finite (mu - beta * ln (- ln (1 - 1 / 50))))
           \<and> rvs ''100_year'' = Some (Finite (mu - beta * ln (- ln (1 - 1 / 100))))"
proof -
  let ?rvs = "[''2_year'' \<mapsto> Finite (spec_return_value mu beta 2),
          ''5_year'' \<mapsto> Finite (spec_return_value mu beta 5),
          ''10_year'' \<mapsto> Finite (spec_return_value mu beta 10),
          ''20_year'' \<mapsto> Finite (spec_return_value mu beta 20),
          ''50_year'' \<mapsto> Finite (spec_return_value mu beta 50),
          ''100_year'' \<mapsto> Finite (spec_return_value mu beta 100)]"
  have "get_extreme_value_analysis lib self =
          ExtremeValues (Finite mu, Finite beta) ?rvs
            (gumbel_goodness_of_fit lib self (Finite mu, Finite beta))"
    by (simp add: get_extreme_value_analysis_def assms(1) return_values_fold[OF assms(2)]
        del: fun_upd_apply)
  moreover have "dom ?rvs = {''2_year'', ''5_year'', ''10_year'', ''20_year'', ''50_year'', ''100_year''}"
    by (rule return_values_dom)
  moreover have "?rvs ''2_year'' = Some (Finite (mu - beta * ln (- ln (1 - 1 / 2))))"
    "?rvs ''5_year'' = Some (Finite (mu - beta * ln (- ln (1 - 1 / 5))))"
    "?rvs ''10_year'' = Some (Finite (mu - beta * ln (- ln (1 - 1 / 10))))"
    "?rvs ''20_year'' = Some (Finite (mu - beta * ln (- ln (1 - 1 / 20))))"
    "?rvs ''50_year'' = Some (Finite (mu - beta * ln (- ln (1 - 1 / 50))))"
    "?rvs ''100_year'' = Some (Finite (mu - beta * ln (- ln (1 - 1 / 100))))"
    by (simp_all only: return_values_lookup spec_return_value_def of_nat_numeral)
  ultimately show ?thesis by blast
qed

theorem C9_witness:
  "gumbel_r_fit fixed_stats [Finite 18, Finite 22, Finite 25] = Inr (Finite 20, Finite 3)
   \<and> (\<exists>rvs gof. get_extreme_value_analysis fixed_stats
                   \<lparr>data = [Finite 18, Finite 22, Finite 25], n_years = 3\<rparr> =
                 ExtremeValues (Finite 20, Finite 3) rvs gof
        \<and> rvs ''2_year'' = Some (Finite (20 - 3 * ln (- ln (1 - 1 / 2))))
        \<and> rvs ''100_year'' = Some (Finite (20 - 3 * ln (- ln (1 - 1 / 100)))))"
proof -
  have h: "gumbel_r_fit fixed_stats
             (data \<lparr>data = [Finite 18, Finite 22, Finite 25], n_years = 3\<rparr>) =
           Inr (Finite 20, Finite 3)"
    by (simp add: fixed_stats_def)
  have b: "(0::real) < 3" by simp
  have g: "gumbel_r_fit fixed_stats [Finite 18, Finite 22, Finite 25] = Inr (Finite 20, Finite 3)"
    by (simp add: fixed_stats_def)
  from C9_gumbel_return_values[OF h b] obtain rvs gof where
    r: "get_extreme_value_analysis fixed_stats
          \<lparr>data = [Finite 18, Finite 22, Finite 25], n_years = 3\<rparr> =
        ExtremeValues (Finite 20, Finite 3) rvs gof"
       "rvs ''2_year'' = Some (Finite (20 - 3 * ln (- ln (1 - 1 / 2))))"
       "rvs ''100_year'' = Some (Finite (20 - 3 * ln (- ln (1 - 1 / 100))))"
    by (elim exE conjE)
  show ?thesis
    by (intro conjI exI) (rule g r)+
qed

section \<open>Percentiles\<close>

lemma insort_key_Finite:
  "insort_key fl_key (Finite x) (map Finite ys) = map Finite (insort x ys)"
  by (induction ys) simp_all

lemma np_sort_Finite: "np_sort (map Finite xs) = map Finite (sort xs)"
  unfolding np_sort_def by (induction xs) (simp_all add: insort_key_Finite)

lemma floor_index:
  assumes "0 \<le> v" and "v \<le> real m"
  shows "nat \<lfloor>v\<rfloor> \<le> m" and "real (nat \<lfloor>v\<rfloor>) \<le> v" and "v < real (nat \<lfloor>v\<rfloor>) + 1"
proof -
  have "\<lfloor>v\<rfloor> \<le> int m" using assms(2) by (simp add: floor_le_iff)
  then show "nat \<lfloor>v\<rfloor> \<le> m" by simp
  have "0 \<le> \<lfloor>v\<rfloor>" using assms(1) by simp
  then have r: "real (nat \<lfloor>v\<rfloor>) = of_int \<lfloor>v\<rfloor>" by simp
  show "real (nat \<lfloor>v\<rfloor>) \<le> v" unfolding r by simp
  show "v < real (nat \<lfloor>v\<rfloor>) + 1" unfolding r by linarith
qed

lemma interp_between:
  fixes s :: "real list"
  assumes "sorted s" and "lo \<le> hi" and "hi < length s" and "0 \<le> g" and "g \<le> 1"
  shows "s ! lo \<le> s ! lo + (s ! hi - s ! lo) * g" and "s ! lo + (s ! hi - s ! lo) * g \<le> s ! hi"
proof -
  have d: "0 \<le> s ! hi - s ! lo"
    using sorted_nth_mono[OF assms(1,2,3)] by simp
  show "s ! lo \<le> s ! lo + (s ! hi - s ! lo) * g"
    using d assms(4) by simp
  have "(s ! hi - s ! lo) * g \<le> (s ! hi - s ! lo) * 1"
    using d assms(5) by (intro mult_left_mono) simp_all
  then show "s ! lo + (s ! hi - s ! lo) * g \<le> s ! hi" by simp
qed

lemma interp_mono:
  fixes s :: "real list"
  assumes srt: "sorted s" and ne: "s \<noteq> []"
    and v0: "0 \<le> v" and vw: "v \<le> w" and wn: "w \<le> real (length s - 1)"
  defines "lo \<equiv> \<lambda>u. nat \<lfloor>u\<rfloor>"
  defines "hi \<equiv> \<lambda>u. min (nat \<lfloor>u\<rfloor> + 1) (length s - 1)"
  shows "s ! lo v + (s ! hi v - s ! lo v) * (v - real (lo v))
       \<le> s ! lo w + (s ! hi w - s ! lo w) * (w - real (lo w))"
proof -
  have w0: "0 \<le> w" and vn: "v \<le> real (length s - 1)" using v0 vw wn by simp_all
  note fv = floor_index[OF v0 vn] and fw = floor_index[OF w0 wn]
  have len: "length s - 1 < length s" using ne by simp
  have lov: "lo v \<le> length s - 1" and low: "lo w \<le> length s - 1"
    using fv(1) fw(1) by (simp_all add: lo_def)
  have hiv: "lo v \<le> hi v" "hi v < length s" and hiw: "lo w \<le> hi w" "hi w < length s"
    using lov low len by (simp_all add: lo_def hi_def)
  have gv: "0 \<le> v - real (lo v)" "v - real (lo v) \<le> 1"
    using fv(2,3) unfolding lo_def by linarith+
  have gw: "0 \<le> w - real (lo w)" "w - real (lo w) \<le> 1"
    using fw(2,3) unfolding lo_def by linarith+
  have le: "lo v \<le> lo w"
    using vw by (simp add: lo_def nat_mono floor_mono)
  show ?thesis
  proof (cases "lo v = lo w")
    case True
    then have h: "hi v = hi w" by (simp add: lo_def hi_def)
    have d: "0 \<le> s ! hi w - s ! lo w"
      using sorted_nth_mono[OF srt hiw] by simp
    have "(s ! hi w - s ! lo w) * (v - real (lo w)) \<le> (s ! hi w - s ! lo w) * (w - real (lo w))"
      using d vw by (intro mult_left_mono) simp_all
    then show ?thesis unfolding True h by simp
  next
    case False
    then have lt: "lo v + 1 \<le> lo w" using le by simp
    then have "hi v = lo v + 1" using low by (simp add: lo_def hi_def)
    then have hl: "hi v \<le> lo w" using lt by simp
    have "s ! lo v + (s ! hi v - s ! lo v) * (v - real (lo v)) \<le> s ! hi v"
      by (rule interp_between(2)[OF srt hiv gv])
    also have "\<dots> \<le> s ! lo w"
      using low len by (intro sorted_nth_mono[OF srt hl]) simp
    also have "\<dots> \<le> s ! lo w + (s ! hi w - s ! lo w) * (w - real (lo w))"
      by (rule interp_between(1)[OF srt hiw gw])
    finally show ?thesis .
  qed
qed

lemma linear_percentile_mono:
  assumes "xs \<noteq> []" and "0 \<le> q" and "q \<le> r" and "r \<le> 100"
  shows "linear_percentile xs q \<le> linear_percentile xs r"
proof -
  let ?s = "sort xs"
  let ?m = "real (length ?s - 1)"
  have ne: "?s \<noteq> []" using assms(1) by (metis length_sort length_0_conv)
  have m0: "0 \<le> ?m" by simp
  have v0: "0 \<le> ?m * (q / 100)" using assms(2) by simp
  have vw: "?m * (q / 100) \<le> ?m * (r / 100)"
    using assms(3) by (intro mult_left_mono) simp_all
  have "?m * (r / 100) \<le> ?m * 1"
    using assms(4) by (intro mult_left_mono) simp_all
  then have wn: "?m * (r / 100) \<le> real (length ?s - 1)" by simp
  show ?thesis
    unfolding linear_percentile_def Let_def
    using interp_mono[OF sorted_sort ne v0 vw wn] by simp
qed

lemma lerp_Finite: "lerp (Finite a) (Finite b) (Finite g) = Finite (a + (b - a) * g)"
  by (simp add: lerp_def Let_def fl_sub_def fl_ge_def fl_le_def algebra_simps)

lemma np_percentile_Finite:
  assumes "xs \<noteq> []" and "0 \<le> q" and "q \<le> 100"
  shows "np_percentile (map Finite xs) q = Finite (linear_percentile xs q)"
proof -
  define s where "s = sort xs"
  define v where "v = real (length s - 1) * (q / 100)"
  define lo where "lo = nat \<lfloor>v\<rfloor>"
  define hi where "hi = min (lo + 1) (length s - 1)"
  have ne: "s \<noteq> []" using assms(1) unfolding s_def by (metis length_sort length_0_conv)
  then have len: "0 < length s" by simp
  have v0: "0 \<le> v" using assms(2) by (simp add: v_def)
  have "real (length s - 1) * (q / 100) \<le> real (length s - 1) * 1"
    using assms(3) by (intro mult_left_mono) simp_all
  then have vn: "v \<le> real (length s - 1)" by (simp add: v_def)
  have lo: "lo \<le> length s - 1"
    unfolding lo_def by (rule floor_index(1)[OF v0 vn])
  have lo_lt: "lo < length s" and hi_lt: "hi < length s"
    using len lo unfolding hi_def by linarith+
  have clip: "min lo (length s - 1) = lo" using lo by simp
  have lst: "\<not> isnan (last (map Finite s))"
    by (simp add: last_map[OF ne] isnan_def)
  have "np_percentile (map Finite xs) q =
          lerp (map Finite s ! lo) (map Finite s ! hi) (Finite (v - real lo))"
    using ne len lst clip
    by (simp add: np_percentile_def np_sort_Finite Let_def s_def v_def lo_def hi_def)
  also have "\<dots> = Finite (s ! lo + (s ! hi - s ! lo) * (v - real lo))"
    by (simp only: nth_map[OF lo_lt] nth_map[OF hi_lt] lerp_Finite)
  also have "\<dots> = Finite (linear_percentile xs q)"
    by (simp add: linear_percentile_def Let_def s_def v_def lo_def hi_def)
  finally show ?thesis .
qed

lemma fl_le_Finite: "fl_le (Finite a) (Finite b) \<longleftrightarrow> a \<le> b"
  by (auto simp: fl_le_def)

text \<open>
  The constructor keeps infinities. On the cleaned sample of minus and plus infinity every
  interpolation is NaN, and on the sample of 1 and plus infinity the median is NaN next to
  an infinite lower quartile: NaN compares with nothing, so the table is not ordered.
\<close>

theorem C3_counterexample:
  "ClimatologicalAnalyzer_init [NegInf, PosInf] =
     Inr (\<lparr>data = [NegInf, PosInf], n_years = 2\<rparr>, [low_data_warning 2])
   \<and> p10 (get_percentiles \<lparr>data = [NegInf, PosInf], n_years = 2\<rparr>) = NaN
   \<and> p25 (get_percentiles \<lparr>data = [NegInf, PosInf], n_years = 2\<rparr>) = NaN
   \<and> \<not> fl_le (p10 (get_percentiles \<lparr>data = [NegInf, PosInf], n_years = 2\<rparr>))
              (p25 (get_percentiles \<lparr>data = [NegInf, PosInf], n_years = 2\<rparr>))
   \<and> ClimatologicalAnalyzer_init [Finite 1, PosInf] =
     Inr (\<lparr>data = [Finite 1, PosInf], n_years = 2\<rparr>, [low_data_warning 2])
   \<and> p25 (get_percentiles \<lparr>data = [Finite 1, PosInf], n_years = 2\<rparr>) = PosInf
   \<and> p50 (get_percentiles \<lparr>data = [Finite 1, PosInf], n_years = 2\<rparr>) = NaN
   \<and> \<not> fl_le (p25 (get_percentiles \<lparr>data = [Finite 1, PosInf], n_years = 2\<rparr>))
              (p50 (get_percentiles \<lparr>data = [Finite 1, PosInf], n_years = 2\<rparr>))"
proof -
  have i1: "ClimatologicalAnalyzer_init [NegInf, PosInf] =
     Inr (\<lparr>data = [NegInf, PosInf], n_years = 2\<rparr>, [low_data_warning 2])"
    by code_simp
  have i2: "ClimatologicalAnalyzer_init [Finite 1, PosInf] =
     Inr (\<lparr>data = [Finite 1, PosInf], n_years = 2\<rparr>, [low_data_warning 2])"
    by code_simp
  have s1: "np_sort [NegInf, PosInf] = [NegInf, PosInf]"
    by (simp add: np_sort_def)
  have s2: "np_sort [Finite 1, PosInf] = [Finite 1, PosInf]"
    by (simp add: np_sort_def)
  have a: "np_percentile [NegInf, PosInf] 10 = NaN"
    by (simp add: np_percentile_def s1 Let_def isnan_def lerp_def fl_sub_def fl_ge_def
        fl_le_def signed_inf_def)
  have b: "np_percentile [NegInf, PosInf] 25 = NaN"
    by (simp add: np_percentile_def s1 Let_def isnan_def lerp_def fl_sub_def fl_ge_def
        fl_le_def signed_inf_def)
  have c: "np_percentile [Finite 1, PosInf] 25 = PosInf"
    by (simp add: np_percentile_def s2 Let_def isnan_def lerp_def fl_sub_def fl_ge_def
        fl_le_def signed_inf_def)
  have d: "np_percentile [Finite 1, PosInf] 50 = NaN"
    by (simp add: np_percentile_def s2 Let_def isnan_def lerp_def fl_sub_def fl_ge_def
        fl_le_def signed_inf_def)
  show ?thesis
    using i1 i2 by (simp add: get_percentiles_def a b c d fl_le_def)
qed

text \<open>
  Claim C3, amended. For an analyzer constructed from any raw array whose cleaned sample
  consists of the finite observations \<open>xs\<close>, in exact arithmetic: every entry of the
  percentile table is the linear-interpolation percentile of \<open>xs\<close> at its rank, and the
  table is non-decreasing in rank: \<open>p10 \<le> p25 \<le> p50 \<le> p75 \<le> p90 \<le> p95 \<le> p99\<close>.
\<close>

theorem C3_percentiles_monotone:
  assumes "ClimatologicalAnalyzer_init raw = Inr (self, ws)"
    and "data self = map Finite xs"
  shows "p10 (get_percentiles self) = Finite (linear_percentile xs 10)
       \<and> p25 (get_percentiles self) = Finite (linear_percentile xs 25)
       \<and> p50 (get_percentiles self) = Finite (linear_percentile xs 50)
       \<and> p75 (get_percentiles self) = Finite (linear_percentile xs 75)
       \<and> p90 (get_percentiles self) = Finite (linear_percentile xs 90)
       \<and> p95 (get_percentiles self) = Finite (linear_percentile xs 95)
       \<and> p99 (get_percentiles self) = Finite (linear_percentile xs 99)
       \<and> fl_le (p10 (get_percentiles self)) (p25 (get_percentiles self))
       \<and> fl_le (p25 (get_percentiles self)) (p50 (get_percentiles self))
       \<and> fl_le (p50 (get_percentiles self)) (p75 (get_percentiles self))
       \<and> fl_le (p75 (get_percentiles self)) (p90 (get_percentiles self))
       \<and> fl_le (p90 (get_percentiles self)) (p95 (get_percentiles self))
       \<and> fl_le (p95 (get_percentiles self)) (p99 (get_percentiles self))"
proof -
  have ne: "xs \<noteq> []"
    using init_Inr(2,3)[OF assms(1)] assms(2) by auto
  have p: "\<And>q. 0 \<le> q \<Longrightarrow> q \<le> 100 \<Longrightarrow>
             np_percentile (data self) q = Finite (linear_percentile xs q)"
    unfolding assms(2) by (rule np_percentile_Finite[OF ne])
  have m: "\<And>q r. 0 \<le> q \<Longrightarrow> q \<le> r \<Longrightarrow> r \<le> 100 \<Longrightarrow>
             linear_percentile xs q \<le> linear_percentile xs r"
    by (rule linear_percentile_mono[OF ne])
  show ?thesis
    by (simp add: get_percentiles_def p fl_le_Finite m)
qed

lemma linear_percentile_example:
  "linear_percentile [30, 10, 50, 20, 40] 10 = 14"
  "linear_percentile [30, 10, 50, 20, 40] 25 = 20"
  "linear_percentile [30, 10, 50, 20, 40] 50 = 30"
  "linear_percentile [30, 10, 50, 20, 40] 75 = 40"
  "linear_percentile [30, 10, 50, 20, 40] 90 = 46"
  "linear_percentile [30, 10, 50, 20, 40] 95 = 48"
  "linear_percentile [30, 10, 50, 20, 40] 99 = 248 / 5"
  by (simp_all add: linear_percentile_def Let_def)

theorem C3_witness:
  "ClimatologicalAnalyzer_init [Finite 30, Finite 10, Finite 50, Finite 20, Finite 40] =
     Inr (\<lparr>data = [Finite 30, Finite 10, Finite 50, Finite 20, Finite 40], n_years = 5\<rparr>,
          [low_data_warning 5])
   \<and> get_percentiles \<lparr>data = [Finite 30, Finite 10, Finite 50, Finite 20, Finite 40], n_years = 5\<rparr> =
       \<lparr>p10 = Finite 14, p25 = Finite 20, p50 = Finite 30, p75 = Finite 40,
        p90 = Finite 46, p95 = Finite 48, p99 = Finite (248 / 5)\<rparr>"
proof -
  let ?a = "\<lparr>data = [Finite 30, Finite 10, Finite 50, Finite 20, Finite 40], n_years = 5\<rparr>"
  have h: "ClimatologicalAnalyzer_init [Finite 30, Finite 10, Finite 50, Finite 20, Finite 40] =
             Inr (?a, [low_data_warning 5])"
    by code_simp
  have d: "data ?a = map Finite [30, 10, 50, 20, 40]"
    by simp
  have e: "get_percentiles ?a =
             \<lparr>p10 = p10 (get_percentiles ?a), p25 = p25 (get_percentiles ?a),
              p50 = p50 (get_percentiles ?a), p75 = p75 (get_percentiles ?a),
              p90 = p90 (get_percentiles ?a), p95 = p95 (get_percentiles ?a),
              p99 = p99 (get_percentiles ?a)\<rparr>"
    by simp
  show ?thesis
    using h C3_percentiles_monotone[OF h d]
    by (subst e) (simp only: linear_percentile_example simp_thms)
qed

section \<open>Confidence interval\<close>

lemma foldl_fl_add_Finite:
  "foldl fl_add (Finite a) (map Finite xs) = Finite (a + sum_list xs)"
  by (induction xs arbitrary: a) (simp_all add: add.assoc)

lemma np_sum_Finite: "np_sum (map Finite xs) = Finite (sum_list xs)"
  by (simp add: np_sum_def foldl_fl_add_Finite)

lemma np_mean_Finite:
  "xs \<noteq> [] \<Longrightarrow> np_mean (map Finite xs) = Finite (sum_list xs / real (length xs))"
  by (simp add: np_mean_def np_sum_Finite fl_of_nat_def)

lemma np_var_Finite:
  assumes "ddof < length xs"
  shows "np_var ddof (map Finite xs) =
           Finite ((\<Sum>x\<leftarrow>xs. (x - sum_list xs / real (length xs))\<^sup>2) / real (length xs - ddof))"
proof -
  have ne: "xs \<noteq> []" using assms by auto
  let ?m = "sum_list xs / real (length xs)"
  have sq: "map (\<lambda>x. fl_mul (fl_sub x (Finite ?m)) (fl_sub x (Finite ?m))) (map Finite xs) =
              map Finite (map (\<lambda>x. (x - ?m)\<^sup>2) xs)"
    by (simp add: fl_sub_def power2_eq_square)
  have pos: "real (length xs - ddof) \<noteq> 0" using assms by simp
  show ?thesis
    unfolding np_var_def Let_def np_mean_Finite[OF ne] sq np_sum_Finite fl_of_nat_def
    using pos by simp
qed

lemma stats_sem_Finite:
  assumes "2 \<le> length xs"
  shows "stats_sem (map Finite xs) =
           Finite (sqrt ((\<Sum>x\<leftarrow>xs. (x - sum_list xs / real (length xs))\<^sup>2) / real (length xs - 1))
                   / sqrt (real (length xs)))"
proof -
  have d: "1 < length xs" using assms by simp
  have nn: "0 \<le> (\<Sum>x\<leftarrow>xs. (x - sum_list xs / real (length xs))\<^sup>2) / real (length xs - 1)"
    by (intro divide_nonneg_nonneg sum_list_nonneg) auto
  have ne: "xs \<noteq> []" using assms by auto
  have n0: "sqrt (real (length xs)) \<noteq> 0" using ne by simp
  show ?thesis
    unfolding stats_sem_def np_std_def np_var_Finite[OF d] fl_of_nat_def
    using nn n0 by simp
qed

text \<open>
  A sample of a single observation is accepted by the constructor, but its Bessel-corrected
  standard deviation divides zero by zero: the standard error is NaN, both bounds of the
  interval are NaN, and no comparison places the mean inside it. A sample of two
  observations of which one is infinite has an infinite mean and again a NaN standard
  error, and the same interval.
\<close>

theorem C6_counterexample:
  "ClimatologicalAnalyzer_init [Finite 5] =
     Inr (\<lparr>data = [Finite 5], n_years = 1\<rparr>, [low_data_warning 1])
   \<and> np_mean [Finite 5] = Finite 5
   \<and> stats_sem [Finite 5] = NaN
   \<and> confidence_interval fixed_stats \<lparr>data = [Finite 5], n_years = 1\<rparr> (Finite 0.95) = (NaN, NaN)
   \<and> \<not> fl_le NaN (Finite 5)
   \<and> ClimatologicalAnalyzer_init [Finite 1, PosInf] =
     Inr (\<lparr>data = [Finite 1, PosInf], n_years = 2\<rparr>, [low_data_warning 2])
   \<and> np_mean [Finite 1, PosInf] = PosInf
   \<and> stats_sem [Finite 1, PosInf] = NaN
   \<and> confidence_interval fixed_stats \<lparr>data = [Finite 1, PosInf], n_years = 2\<rparr> (Finite 0.95) =
       (NaN, NaN)
   \<and> \<not> fl_le NaN PosInf"
proof -
  have i1: "ClimatologicalAnalyzer_init [Finite 5] =
     Inr (\<lparr>data = [Finite 5], n_years = 1\<rparr>, [low_data_warning 1])"
    by code_simp
  have i2: "ClimatologicalAnalyzer_init [Finite 1, PosInf] =
     Inr (\<lparr>data = [Finite 1, PosInf], n_years = 2\<rparr>, [low_data_warning 2])"
    by code_simp
  have m1: "np_mean [Finite 5] = Finite 5"
    by (simp add: np_mean_def np_sum_def fl_of_nat_def)
  have s1: "stats_sem [Finite 5] = NaN"
    by (simp add: stats_sem_def np_std_def np_var_def m1 np_sum_def fl_of_nat_def fl_sub_def
        signed_inf_def)
  have m2: "np_mean [Finite 1, PosInf] = PosInf"
    by (simp add: np_mean_def np_sum_def fl_of_nat_def signed_inf_def)
  have s2: "stats_sem [Finite 1, PosInf] = NaN"
    by (simp add: stats_sem_def np_std_def np_var_def m2 np_sum_def fl_of_nat_def fl_sub_def
        signed_inf_def)
  have c1: "confidence_interval fixed_stats \<lparr>data = [Finite 5], n_years = 1\<rparr> (Finite 0.95) =
              (NaN, NaN)"
    by (simp add: m1 s1 confidence_interval_def fl_sub_def Let_def fixed_stats_def)
  have c2: "confidence_interval fixed_stats \<lparr>data = [Finite 1, PosInf], n_years = 2\<rparr>
              (Finite 0.95) = (NaN, NaN)"
    by (simp add: m2 s2 confidence_interval_def fl_sub_def Let_def fixed_stats_def)
  have n: "\<not> fl_le NaN (Finite 5)" "\<not> fl_le NaN PosInf"
    by (simp_all add: fl_le_def)
  show ?thesis
    using i1 m1 s1 c1 n i2 m2 s2 c2 by (intro conjI)
qed

lemma fl_mul_NaN_right: "fl_mul z NaN = NaN"
  by (cases z) simp_all

lemma fl_add_NaN_right: "fl_add x NaN = NaN"
  by (cases x) simp_all

lemma stats_sem_single: "stats_sem [x] = NaN"
  by (cases x)
     (simp_all add: stats_sem_def np_std_def np_var_def np_mean_def np_sum_def fl_of_nat_def
        fl_sub_def signed_inf_def)

lemma confidence_interval_single:
  assumes "data self = [x]"
  shows "confidence_interval lib self c = (NaN, NaN)"
  by (simp add: confidence_interval_def Let_def assms stats_sem_single fl_mul_NaN_right
      fl_add_NaN_right fl_sub_def)

lemma confidence_interval_finite:
  assumes "ClimatologicalAnalyzer_init raw = Inr (self, ws)"
    and "data self = map Finite xs"
    and "2 \<le> n_years self"
    and "(if n_years self < 30
          then t_ppf lib (Finite (1 - (1 - cl) / 2)) (Finite (real (n_years self) - 1))
          else norm_ppf lib (Finite (1 - (1 - cl) / 2))) = Finite z"
    and "0 \<le> z"
    and "m = sum_list xs / real (length xs)"
    and "se = sqrt ((\<Sum>x\<leftarrow>xs. (x - m)\<^sup>2) / real (length xs - 1)) / sqrt (real (length xs))"
  shows "np_mean (data self) = Finite m
       \<and> stats_sem (data self) = Finite se
       \<and> confidence_interval lib self (Finite cl) = (Finite (m - z * se), Finite (m + z * se))
       \<and> m - z * se \<le> m \<and> m \<le> m + z * se
       \<and> ((m - z * se) + (m + z * se)) / 2 = m"
proof -
  have n: "n_years self = length xs"
    using init_Inr(2)[OF assms(1)] assms(2) by simp
  have len: "2 \<le> length xs" using assms(3) n by simp
  then have ne: "xs \<noteq> []" by auto
  have mean: "np_mean (data self) = Finite m"
    unfolding assms(2,6) by (rule np_mean_Finite[OF ne])
  have sem: "stats_sem (data self) = Finite se"
    unfolding assms(2,6,7) by (rule stats_sem_Finite[OF len])
  have se0: "0 \<le> se"
    unfolding assms(7) by (intro divide_nonneg_nonneg real_sqrt_ge_zero sum_list_nonneg) auto
  have zs: "0 \<le> z * se" using assms(5) se0 by simp
  have df: "fl_of_int (int (n_years self) - 1) = Finite (real (n_years self) - 1)"
    by (simp add: fl_of_int_def)
  have ci: "confidence_interval lib self (Finite cl) = (Finite (m - z * se), Finite (m + z * se))"
  proof (cases "n_years self < 30")
    case True
    with assms(4) have "t_ppf lib (Finite (1 - (1 - cl) / 2)) (Finite (real (n_years self) - 1)) = Finite z"
      by simp
    then show ?thesis
      using True by (simp add: confidence_interval_def Let_def mean sem df fl_sub_def)
  next
    case False
    with assms(4) have "norm_ppf lib (Finite (1 - (1 - cl) / 2)) = Finite z"
      by simp
    then show ?thesis
      using False by (simp add: confidence_interval_def Let_def mean sem fl_sub_def)
  qed
  show ?thesis
    using mean sem ci zs by simp
qed

lemma critical_value_positive:
  assumes "symmetric_quantiles lib" and "0 < cl" and "cl < 1" and "2 \<le> n"
  shows "\<exists>z. 0 < z \<and>
           (if n < 30 then t_ppf lib (Finite (1 - (1 - cl) / 2)) (Finite (real n - 1))
            else norm_ppf lib (Finite (1 - (1 - cl) / 2))) = Finite z"
proof -
  have q: "1 / 2 < 1 - (1 - cl) / 2" "1 - (1 - cl) / 2 < 1"
    using assms(2,3) by simp_all
  have df: "1 \<le> real n - 1" using assms(4) by simp
  from assms(1) q have
    nrm: "\<exists>z. 0 < z \<and> norm_ppf lib (Finite (1 - (1 - cl) / 2)) = Finite z" and
    stu: "\<forall>df. 1 \<le> df \<longrightarrow> (\<exists>z. 0 < z \<and> t_ppf lib (Finite (1 - (1 - cl) / 2)) (Finite df) = Finite z)"
    unfolding symmetric_quantiles_def by blast+
  show ?thesis
  proof (cases "n < 30")
    case True
    then show ?thesis using stu df by simp
  next
    case False
    then show ?thesis using nrm by simp
  qed
qed

text \<open>
  Claim C6, amended. For an analyzer whose cleaned sample is a single observation, the
  interval returned is \<open>(NaN, NaN)\<close>, whatever the observation, the confidence level and the
  quantile functions. For an analyzer whose cleaned sample consists of at least two finite
  observations \<open>xs\<close>, and a confidence level \<open>cl\<close> strictly between 0 and 1, in exact
  arithmetic: with \<open>m\<close> the mean, \<open>se\<close> the Bessel-corrected sample standard deviation
  divided by the square root of \<open>n\<close>, and \<open>z\<close> the critical value, which is the Student
  quantile at \<open>1 - (1 - cl)/2\<close> with \<open>n - 1\<close> degrees of freedom when \<open>n < 30\<close> and the
  standard normal quantile at \<open>1 - (1 - cl)/2\<close> otherwise, the interval returned is
  \<open>(m - z * se, m + z * se)\<close>. The critical value is positive, the quantile functions being
  those of distributions symmetric about zero, so the interval contains the mean and is
  symmetric about it.
\<close>

theorem C6_confidence_interval:
  assumes "ClimatologicalAnalyzer_init raw = Inr (self, ws)"
  shows "(n_years self = 1 \<longrightarrow> confidence_interval lib self c = (NaN, NaN))
       \<and> (2 \<le> n_years self \<and> data self = map Finite xs \<and> symmetric_quantiles lib
            \<and> 0 < cl \<and> cl < 1
            \<and> m = sum_list xs / real (length xs)
            \<and> se = sqrt ((\<Sum>x\<leftarrow>xs. (x - m)\<^sup>2) / real (length xs - 1)) / sqrt (real (length xs))
          \<longrightarrow> (\<exists>z. 0 < z
                 \<and> (if n_years self < 30
                     then t_ppf lib (Finite (1 - (1 - cl) / 2)) (Finite (real (n_years self) - 1))
                     else norm_ppf lib (Finite (1 - (1 - cl) / 2))) = Finite z
                 \<and> np_mean (data self) = Finite m
                 \<and> stats_sem (data self) = Finite se
                 \<and> confidence_interval lib self (Finite cl) =
                     (Finite (m - z * se), Finite (m + z * se))
                 \<and> m - z * se \<le> m \<and> m \<le> m + z * se
                 \<and> ((m - z * se) + (m + z * se)) / 2 = m))"
proof (intro conjI impI)
  assume "n_years self = 1"
  then have "length (data self) = 1"
    using init_Inr(2)[OF assms] by simp
  then obtain x where "data self = [x]"
    by (cases "data self") auto
  then show "confidence_interval lib self c = (NaN, NaN)"
    by (rule confidence_interval_single)
next
  assume h: "2 \<le> n_years self \<and> data self = map Finite xs \<and> symmetric_quantiles lib
            \<and> 0 < cl \<and> cl < 1
            \<and> m = sum_list xs / real (length xs)
            \<and> se = sqrt ((\<Sum>x\<leftarrow>xs. (x - m)\<^sup>2) / real (length xs - 1)) / sqrt (real (length xs))"
  then obtain z where z: "0 < z"
    "(if n_years self < 30
      then t_ppf lib (Finite (1 - (1 - cl) / 2)) (Finite (real (n_years self) - 1))
      else norm_ppf lib (Finite (1 - (1 - cl) / 2))) = Finite z"
    using critical_value_positive[of lib cl "n_years self"] by blast
  have z0: "0 \<le> z" using z(1) by simp
  from h have d: "data self = map Finite xs" and n: "2 \<le> n_years self"
    and m: "m = sum_list xs / real (length xs)"
    and se: "se = sqrt ((\<Sum>x\<leftarrow>xs. (x - m)\<^sup>2) / real (length xs - 1)) / sqrt (real (length xs))"
    by simp_all
  show "\<exists>z. 0 < z
          \<and> (if n_years self < 30
              then t_ppf lib (Finite (1 - (1 - cl) / 2)) (Finite (real (n_years self) - 1))
              else norm_ppf lib (Finite (1 - (1 - cl) / 2))) = Finite z
          \<and> np_mean (data self) = Finite m
          \<and> stats_sem (data self) = Finite se
          \<and> confidence_interval lib self (Finite cl) =
              (Finite (m - z * se), Finite (m + z * se))
          \<and> m - z * se \<le> m \<and> m \<le> m + z * se
          \<and> ((m - z * se) + (m + z * se)) / 2 = m"
    using z confidence_interval_finite[OF assms d n z(2) z0 m se]
    by (intro exI[of _ z]) simp
qed

lemma fixed_stats_quantiles: "symmetric_quantiles fixed_stats"
  by (simp add: symmetric_quantiles_def fixed_stats_def)

theorem C6_witness:
  "ClimatologicalAnalyzer_init [Finite 3, Finite 5] =
     Inr (\<lparr>data = [Finite 3, Finite 5], n_years = 2\<rparr>, [low_data_warning 2])
   \<and> np_mean [Finite 3, Finite 5] = Finite 4
   \<and> stats_sem [Finite 3, Finite 5] = Finite 1
   \<and> confidence_interval fixed_stats \<lparr>data = [Finite 3, Finite 5], n_years = 2\<rparr> (Finite 0.95) =
       (Finite 2, Finite 6)
   \<and> ClimatologicalAnalyzer_init [Finite 7] =
     Inr (\<lparr>data = [Finite 7], n_years = 1\<rparr>, [low_data_warning 1])
   \<and> confidence_interval fixed_stats \<lparr>data = [Finite 7], n_years = 1\<rparr> (Finite 0.95) =
       (NaN, NaN)"
proof -
  let ?a = "\<lparr>data = [Finite 3, Finite 5], n_years = 2\<rparr>"
  let ?b = "\<lparr>data = [Finite 7], n_years = 1\<rparr>"
  have h: "ClimatologicalAnalyzer_init [Finite 3, Finite 5] = Inr (?a, [low_data_warning 2])"
    by code_simp
  have k: "ClimatologicalAnalyzer_init [Finite 7] = Inr (?b, [low_data_warning 1])"
    by code_simp
  have t: "t_ppf fixed_stats (Finite (1 - (1 - 0.95) / 2)) (Finite (real (n_years ?a) - 1)) =
             Finite 2"
    by (simp add: fixed_stats_def)
  have one: "confidence_interval fixed_stats ?b (Finite 0.95) = (NaN, NaN)"
    using C6_confidence_interval[OF k, of fixed_stats "Finite 0.95"] by simp
  have "\<exists>z. 0 < z
          \<and> (if n_years ?a < 30
              then t_ppf fixed_stats (Finite (1 - (1 - 0.95) / 2)) (Finite (real (n_years ?a) - 1))
              else norm_ppf fixed_stats (Finite (1 - (1 - 0.95) / 2))) = Finite z
          \<and> np_mean (data ?a) = Finite (sum_list [3, 5] / real (length [3, 5 :: real]))
          \<and> stats_sem (data ?a) =
              Finite (sqrt ((\<Sum>x\<leftarrow>[3, 5]. (x - sum_list [3, 5] / real (length [3, 5 :: real]))\<^sup>2)
                            / real (length [3, 5 :: real] - 1)) / sqrt (real (length [3, 5 :: real])))
          \<and> confidence_interval fixed_stats ?a (Finite 0.95) =
              (Finite (sum_list [3, 5] / real (length [3, 5 :: real])
                       - z * (sqrt ((\<Sum>x\<leftarrow>[3, 5]. (x - sum_list [3, 5] / real (length [3, 5 :: real]))\<^sup>2)
                            / real (length [3, 5 :: real] - 1)) / sqrt (real (length [3, 5 :: real])))),
               Finite (sum_list [3, 5] / real (length [3, 5 :: real])
                       + z * (sqrt ((\<Sum>x\<leftarrow>[3, 5]. (x - sum_list [3, 5] / real (length [3, 5 :: real]))\<^sup>2)
                            / real (length [3, 5 :: real] - 1)) / sqrt (real (length [3, 5 :: real])))))"
    using C6_confidence_interval[OF h, of fixed_stats _ "[3, 5]" "0.95"
            "sum_list [3, 5] / real (length [3, 5 :: real])"
            "sqrt ((\<Sum>x\<leftarrow>[3, 5]. (x - sum_list [3, 5] / real (length [3, 5 :: real]))\<^sup>2)
                            / real (length [3, 5 :: real] - 1)) / sqrt (real (length [3, 5 :: real]))"]
          fixed_stats_quantiles
    by auto
  then obtain z where z: "t_ppf fixed_stats (Finite (1 - (1 - 0.95) / 2)) (Finite (real (n_years ?a) - 1))
          = Finite z"
    and r: "np_mean [Finite 3, Finite 5] = Finite 4"
           "stats_sem [Finite 3, Finite 5] = Finite 1"
           "confidence_interval fixed_stats ?a (Finite 0.95) = (Finite (4 - z * 1), Finite (4 + z * 1))"
    by (auto simp: power2_eq_square)
  have "z = 2" using z t by simp
  then show ?thesis
    using h k one r by simp
qed

end
